theory Spec2Isabelle
  imports Complex_Main "HOL-Library.AList"
begin

section \<open>Python primitives used by the validation scripts\<close>

text \<open>
  The scripts compute with Python floats. A finite float is the real number it stands
  for, and the values the ephemeris library returns are taken to be finite. In the zodiac
  formatting every float operation is modelled with its rounding to binary64
  (\<open>binary64_round\<close>); the other arithmetic of the scripts is idealised as exact. NaN
  and the infinities are values of \<open>pyfloat\<close>, the argument type of the zodiac
  formatting.
\<close>

datatype error =
    SweError string     \<comment> \<open>\<open>swe.Error\<close>, raised by a call into the ephemeris library\<close>
  | KeyError string     \<comment> \<open>a dict lookup with a missing key\<close>
  | IndexError          \<comment> \<open>a sequence index out of range\<close>
  | TypeError           \<comment> \<open>an operation on a value of the wrong dynamic type\<close>
  | ValueError          \<comment> \<open>\<open>int\<close> of NaN\<close>
  | OverflowError       \<comment> \<open>\<open>int\<close> of an infinity\<close>

datatype pyfloat = Finite real | PosInf | NegInf | NaN

definition round_half_even :: "real \<Rightarrow> int" where
  "round_half_even y =
     (let f = \<lfloor>y\<rfloor>; d = y - of_int f
      in if d < 1 / 2 then f
         else if 1 / 2 < d then f + 1
         else if even f then f else f + 1)"

definition exponent :: "real \<Rightarrow> int" where
  \<comment> \<open>the binary exponent of a nonzero value, not below that of the subnormal numbers\<close>
  "exponent x = max \<lfloor>log 2 \<bar>x\<bar>\<rfloor> (- 1022)"

definition ulp :: "real \<Rightarrow> real" where
  \<comment> \<open>the distance between neighbouring binary64 numbers at the magnitude of \<open>x\<close>\<close>
  "ulp x = 2 powr of_int (exponent x - 52)"

definition binary64_round :: "real \<Rightarrow> real" where
  \<comment> \<open>the binary64 number nearest to \<open>x\<close>, a tie going to the even significand. No
      operation of the zodiac formatting on finite arguments can overflow, so the
      overflow to an infinity is left out.\<close>
  "binary64_round x = (if x = 0 then 0 else ulp x * of_int (round_half_even (x / ulp x)))"

definition is_binary64 :: "real \<Rightarrow> bool" where
  \<comment> \<open>the real numbers that are finite binary64 floats\<close>
  "is_binary64 x \<longleftrightarrow> binary64_round x = x \<and> \<bar>x\<bar> < 2 ^ 1024"

definition fadd :: "real \<Rightarrow> real \<Rightarrow> real" where
  "fadd a b = binary64_round (a + b)"

definition fsub :: "real \<Rightarrow> real \<Rightarrow> real" where
  "fsub a b = binary64_round (a - b)"

definition fmul :: "real \<Rightarrow> real \<Rightarrow> real" where
  "fmul a b = binary64_round (a * b)"

definition fdiv :: "real \<Rightarrow> real \<Rightarrow> real" where
  "fdiv a b = binary64_round (a / b)"

definition py_int :: "real \<Rightarrow> int" where
  \<comment> \<open>\<open>int(x)\<close> on a finite float: truncation toward zero, exact\<close>
  "py_int x = (if 0 \<le> x then \<lfloor>x\<rfloor> else \<lceil>x\<rceil>)"

definition c_fmod :: "real \<Rightarrow> real \<Rightarrow> real" where
  \<comment> \<open>C's \<open>fmod\<close>: the exact remainder of the truncated quotient, with the sign of \<open>x\<close>\<close>
  "c_fmod x y = x - y * of_int (py_int (x / y))"

definition py_fmod :: "real \<Rightarrow> real \<Rightarrow> real" where
  \<comment> \<open>\<open>x % y\<close> on floats: \<open>fmod\<close>, and when the remainder is not zero and its sign is not
      the divisor's, the divisor is added to it, in float arithmetic. Both scripts only
      divide by the literal 30, so the \<open>ZeroDivisionError\<close> branch cannot be taken.\<close>
  "py_fmod x y =
     (let m = c_fmod x y
      in if m \<noteq> 0 \<and> (y < 0) \<noteq> (m < 0) then fadd m y else m)"

definition py_index :: "'a list \<Rightarrow> int \<Rightarrow> error + 'a" where
  \<comment> \<open>\<open>xs[i]\<close>: a negative index counts from the end, out of range raises\<close>
  "py_index xs i =
     (if 0 \<le> i \<and> i < int (length xs) then Inr (xs ! nat i)
      else if i < 0 \<and> - int (length xs) \<le> i then Inr (xs ! nat (int (length xs) + i))
      else Inl IndexError)"

section \<open>Zodiac formatting\<close>

definition signs :: "string list" where
  "signs = [''Ari'', ''Tau'', ''Gem'', ''Can'', ''Leo'', ''Vir'',
            ''Lib'', ''Sco'', ''Sag'', ''Cap'', ''Aqu'', ''Pis'']"

definition SIGNS :: "string list" where
  "SIGNS = [''Aries'', ''Taurus'', ''Gemini'', ''Cancer'', ''Leo'', ''Virgo'',
            ''Libra'', ''Scorpio'', ''Sagittarius'', ''Capricorn'', ''Aquarius'', ''Pisces'']"

definition sign_idx :: "real \<Rightarrow> int" where
  \<comment> \<open>\<open>sign_idx = int(longitude / 30) % 12\<close> for a finite longitude, the same line in
      both scripts\<close>
  "sign_idx longitude = py_int (fdiv longitude 30) mod 12"

definition degrees :: "real \<Rightarrow> real" where
  \<comment> \<open>\<open>degrees = longitude % 30\<close> for a finite longitude, the same line in both scripts\<close>
  "degrees longitude = py_fmod longitude 30"

fun format_zodiac :: "pyfloat \<Rightarrow> error + (real \<times> string)" where
  \<comment> \<open>\<open>generate_reference_data.format_zodiac\<close>. The result stands for the string
      \<open>f"{degrees:.2f}\<degree> {signs[sign_idx]}"\<close>: the number that is printed and the sign
      name; the decimal rendering of the number is not modelled. On NaN and on an
      infinity \<open>longitude / 30\<close> is the same value and \<open>int\<close> of it raises.\<close>
  "format_zodiac (Finite longitude) =
     (case py_index signs (sign_idx longitude) of
        Inl e \<Rightarrow> Inl e
      | Inr s \<Rightarrow> Inr (degrees longitude, s))"
| "format_zodiac NaN = Inl ValueError"
| "format_zodiac PosInf = Inl OverflowError"
| "format_zodiac NegInf = Inl OverflowError"

fun format_zodiac_ec :: "pyfloat \<Rightarrow> error + (int \<times> real \<times> string)" where
  \<comment> \<open>\<open>einstein_chart.format_zodiac\<close>. The result stands for the string
      \<open>f"{deg}\<degree>{minutes:.1f}' {SIGNS[sign_idx]}"\<close>.\<close>
  "format_zodiac_ec (Finite longitude) =
     (case py_index SIGNS (sign_idx longitude) of
        Inl e \<Rightarrow> Inl e
      | Inr s \<Rightarrow>
          (let deg = py_int (degrees longitude);
               minutes = fmul (fsub (degrees longitude) (of_int deg)) 60
           in Inr (deg, minutes, s)))"
| "format_zodiac_ec NaN = Inl ValueError"
| "format_zodiac_ec PosInf = Inl OverflowError"
| "format_zodiac_ec NegInf = Inl OverflowError"

section \<open>More Python primitives: rounding, dynamic values, dicts\<close>

definition py_round :: "real \<Rightarrow> nat \<Rightarrow> real" where
  \<comment> \<open>\<open>round(x, n)\<close> on a float: to the nearest multiple of \<open>10 ** -n\<close>, a tie going to
      the even neighbour\<close>
  "py_round x n = of_int (round_half_even (x * 10 ^ n)) / 10 ^ n"

datatype pyval =
    PStr string
  | PFloat real
  | PBool bool
  | PList "pyval list"
  | PDict "(string \<times> pyval) list"   \<comment> \<open>a dict, keys in insertion order\<close>

definition py_getitem :: "pyval \<Rightarrow> string \<Rightarrow> error + pyval" where
  \<comment> \<open>\<open>d[k]\<close> with a string key\<close>
  "py_getitem d k =
     (case d of
        PDict kvs \<Rightarrow> (case map_of kvs k of None \<Rightarrow> Inl (KeyError k) | Some v \<Rightarrow> Inr v)
      | _ \<Rightarrow> Inl TypeError)"

definition as_float :: "pyval \<Rightarrow> error + real" where
  \<comment> \<open>a value used in float arithmetic or under a float format specification\<close>
  "as_float v =
     (case v of
        PFloat r \<Rightarrow> Inr r
      | PBool b \<Rightarrow> Inr (if b then 1 else 0)
      | _ \<Rightarrow> Inl TypeError)"

definition get_float :: "pyval \<Rightarrow> string \<Rightarrow> error + real" where
  "get_float d k = (case py_getitem d k of Inl e \<Rightarrow> Inl e | Inr v \<Rightarrow> as_float v)"

definition truthy :: "pyval \<Rightarrow> bool" where
  "truthy v =
     (case v of
        PStr s \<Rightarrow> s \<noteq> []
      | PFloat r \<Rightarrow> r \<noteq> 0
      | PBool b \<Rightarrow> b
      | PList xs \<Rightarrow> xs \<noteq> []
      | PDict kvs \<Rightarrow> kvs \<noteq> [])"

section \<open>The ephemeris library, the effects of a run\<close>

text \<open>
  Both scripts import the external module \<open>swisseph\<close> as \<open>swe\<close>. Its functions are
  parameters of the model; each of them may raise. Its constants \<open>swe.SUN\<close> ...
  \<open>swe.ECL_NUT\<close> and \<open>swe.FLG_SPEED\<close> are opaque identifiers.
\<close>

datatype body =
    SUN | MOON | MERCURY | VENUS | MARS | JUPITER | SATURN | URANUS | NEPTUNE | PLUTO
  | MEAN_NODE | TRUE_NODE | MEAN_APOG | ECL_NUT

datatype flags = FLG_SPEED

record xx =
  \<comment> \<open>the six floats of a position: \<open>[lon, lat, dist, lon_speed, lat_speed, dist_speed]\<close>\<close>
  lon :: real
  lat :: real
  dist :: real
  lon_speed :: real
  lat_speed :: real
  dist_speed :: real

record swisseph =
  swe_version :: string
  swe_julday :: "int \<Rightarrow> int \<Rightarrow> int \<Rightarrow> real \<Rightarrow> error + real"
  swe_deltat :: "real \<Rightarrow> error + real"
  swe_sidtime :: "real \<Rightarrow> error + real"
  swe_calc :: "real \<Rightarrow> body \<Rightarrow> error + (xx \<times> int)"
  swe_calc_ut :: "real \<Rightarrow> body \<Rightarrow> flags \<Rightarrow> error + (xx \<times> int)"
  swe_houses :: "real \<Rightarrow> real \<Rightarrow> real \<Rightarrow> char \<Rightarrow> error + (real list \<times> real list)"

datatype effect =
    Julday int int int real
  | Deltat real
  | Sidtime real
  | Calc real body
  | CalcUt real body flags
  | Houses real real real char
  | WriteFile string string       \<comment> \<open>path, text\<close>

text \<open>
  A run yields a value or the exception that ended it, and the effects it had, in order.
  Console output is not an effect of the model: the values a script prints are returned.
\<close>

type_synonym 'a run = "(error + 'a) \<times> effect list"

definition ret :: "'a \<Rightarrow> 'a run" where
  "ret x = (Inr x, [])"

definition lift :: "error + 'a \<Rightarrow> 'a run" where
  "lift r = (r, [])"

definition bind_run :: "'a run \<Rightarrow> ('a \<Rightarrow> 'b run) \<Rightarrow> 'b run" where
  "bind_run m f =
     (case m of
        (Inl e, tr) \<Rightarrow> (Inl e, tr)
      | (Inr x, tr) \<Rightarrow> (case f x of (r, tr') \<Rightarrow> (r, tr @ tr')))"

fun for_loop :: "'a list \<Rightarrow> 's \<Rightarrow> ('a \<Rightarrow> 's \<Rightarrow> 's run) \<Rightarrow> 's run" where
  \<comment> \<open>\<open>for x in xs: body\<close>, the variables the body assigns passed along as \<open>s\<close>\<close>
  "for_loop [] s body = ret s"
| "for_loop (x # xs) s body = bind_run (body x s) (\<lambda>s'. for_loop xs s' body)"

definition julday :: "swisseph \<Rightarrow> int \<Rightarrow> int \<Rightarrow> int \<Rightarrow> real \<Rightarrow> real run" where
  "julday swe y m d h = (swe_julday swe y m d h, [Julday y m d h])"

definition deltat :: "swisseph \<Rightarrow> real \<Rightarrow> real run" where
  "deltat swe jd = (swe_deltat swe jd, [Deltat jd])"

definition sidtime :: "swisseph \<Rightarrow> real \<Rightarrow> real run" where
  "sidtime swe jd = (swe_sidtime swe jd, [Sidtime jd])"

definition calc :: "swisseph \<Rightarrow> real \<Rightarrow> body \<Rightarrow> (xx \<times> int) run" where
  "calc swe jd b = (swe_calc swe jd b, [Calc jd b])"

definition calc_ut :: "swisseph \<Rightarrow> real \<Rightarrow> body \<Rightarrow> flags \<Rightarrow> (xx \<times> int) run" where
  "calc_ut swe jd b fl = (swe_calc_ut swe jd b fl, [CalcUt jd b fl])"

definition houses ::
  "swisseph \<Rightarrow> real \<Rightarrow> real \<Rightarrow> real \<Rightarrow> char \<Rightarrow> (real list \<times> real list) run" where
  "houses swe jd la lo hsys = (swe_houses swe jd la lo hsys, [Houses jd la lo hsys])"

definition write_file :: "string \<Rightarrow> string \<Rightarrow> unit run" where
  \<comment> \<open>\<open>with open(path, 'w') as f\<close> and the write; opening the file is taken to succeed\<close>
  "write_file path txt = (Inr (), [WriteFile path txt])"

section \<open>json.dump with indent=2\<close>

definition hex_digit :: "nat \<Rightarrow> char" where
  "hex_digit n = ''0123456789abcdef'' ! (n mod 16)"

definition escape_char :: "char \<Rightarrow> string" where
  \<comment> \<open>\<open>ensure_ascii\<close> escaping of one character of a string; a \<open>char\<close> stands for the
      code point of its value, so every character here is below 256\<close>
  "escape_char c =
     (if c = CHR 0x22 then [CHR 0x5C, CHR 0x22]
      else if c = CHR 0x5C then [CHR 0x5C, CHR 0x5C]
      else if c = CHR 0x0A then [CHR 0x5C, CHR ''n'']
      else if c = CHR 0x0D then [CHR 0x5C, CHR ''r'']
      else if c = CHR 0x09 then [CHR 0x5C, CHR ''t'']
      else if c = CHR 0x08 then [CHR 0x5C, CHR ''b'']
      else if c = CHR 0x0C then [CHR 0x5C, CHR ''f'']
      else if (0x20 :: nat) \<le> of_char c \<and> of_char c \<le> (0x7E :: nat) then [c]
      else [CHR 0x5C, CHR ''u'', CHR ''0'', CHR ''0'',
            hex_digit (of_char c div 16), hex_digit (of_char c)])"

definition json_string :: "string \<Rightarrow> string" where
  "json_string s = [CHR 0x22] @ concat (map escape_char s) @ [CHR 0x22]"

definition newline_indent :: "nat \<Rightarrow> string" where
  "newline_indent level = CHR 0x0A # replicate (2 * level) CHR '' ''"

fun json_dumps :: "(real \<Rightarrow> string) \<Rightarrow> nat \<Rightarrow> pyval \<Rightarrow> string"
  and json_elems :: "(real \<Rightarrow> string) \<Rightarrow> nat \<Rightarrow> pyval list \<Rightarrow> string"
  and json_items :: "(real \<Rightarrow> string) \<Rightarrow> nat \<Rightarrow> (string \<times> pyval) list \<Rightarrow> string" where
  "json_dumps float_repr level (PStr s) = json_string s"
| "json_dumps float_repr level (PFloat r) = float_repr r"
| "json_dumps float_repr level (PBool b) = (if b then ''true'' else ''false'')"
| "json_dumps float_repr level (PList xs) =
     (if xs = [] then ''[]''
      else ''['' @ newline_indent (level + 1) @ json_elems float_repr (level + 1) xs
           @ newline_indent level @ '']'')"
| "json_dumps float_repr level (PDict kvs) =
     (if kvs = [] then ''{}''
      else ''{'' @ newline_indent (level + 1) @ json_items float_repr (level + 1) kvs
           @ newline_indent level @ ''}'')"
| "json_elems float_repr level [] = []"
| "json_elems float_repr level [x] = json_dumps float_repr level x"
| "json_elems float_repr level (x # y # xs) =
     json_dumps float_repr level x @ '','' @ newline_indent level
     @ json_elems float_repr level (y # xs)"
| "json_items float_repr level [] = []"
| "json_items float_repr level [(k, v)] =
     json_string k @ '': '' @ json_dumps float_repr level v"
| "json_items float_repr level ((k, v) # kv # kvs) =
     json_string k @ '': '' @ json_dumps float_repr level v @ '','' @ newline_indent level
     @ json_items float_repr level (kv # kvs)"

section \<open>generate_reference_data.py\<close>

definition CALC_FLAGS :: flags where
  "CALC_FLAGS = FLG_SPEED"

definition PLANETS :: "(string \<times> body) list" where
  "PLANETS =
     [(''Sun'', SUN), (''Moon'', MOON), (''Mercury'', MERCURY), (''Venus'', VENUS),
      (''Mars'', MARS), (''Jupiter'', JUPITER), (''Saturn'', SATURN), (''Uranus'', URANUS),
      (''Neptune'', NEPTUNE), (''Pluto'', PLUTO)]"

definition TEST_DATES :: "(real \<times> string) list" where
  "TEST_DATES =
     [(2451545.0, ''2000-Jan-01 12:00 TT (J2000.0)''),
      (2448724.5, ''1992-Apr-12 00:00 TT (Meeus Ex 47.a)''),
      (2415020.5, ''1900-Jan-01 00:00 TT''),
      (2440587.5, ''1970-Jan-01 00:00 TT (Unix epoch)''),
      (2459580.5, ''2022-Jan-01 00:00 TT''),
      (2488069.5, ''2100-Jan-01 00:00 TT'')]"

definition position :: "xx \<Rightarrow> pyval" where
  \<comment> \<open>the dict that \<open>calculate_position\<close> returns, lines 73 to 80\<close>
  "position result =
     PDict
       [(''longitude'', PFloat (py_round (lon result) 6)),
        (''latitude'', PFloat (py_round (lat result) 6)),
        (''distance'', PFloat (py_round (dist result) 6)),
        (''longitude_speed'', PFloat (py_round (lon_speed result) 6)),
        (''latitude_speed'', PFloat (py_round (lat_speed result) 6)),
        (''is_retrograde'', PBool (lon_speed result < 0))]"

definition calculate_position :: "swisseph \<Rightarrow> body \<Rightarrow> real \<Rightarrow> pyval run" where
  "calculate_position sw planet_id jd =
     bind_run (calc_ut sw jd planet_id CALC_FLAGS) (\<lambda>(result, retflag).
       ret (position result))"

text \<open>
  The environment of a run of \<open>main\<close>: the ephemeris library, the reading of the clock
  (\<open>datetime.now().isoformat()\<close>) and the decimal rendering of a float (\<open>float.__repr__\<close>,
  which \<open>str\<close> and \<open>json.dump\<close> both use).
\<close>

record env =
  swe :: swisseph
  now_isoformat :: string
  float_repr :: "real \<Rightarrow> string"

record row =
  \<comment> \<open>the values of one printed table line, before number formatting\<close>
  row_name :: string
  row_longitude :: real
  row_zodiac :: "real \<times> string"
  row_latitude :: real
  row_distance :: real
  row_speed :: real
  row_retro :: string

definition planet_body ::
  "swisseph \<Rightarrow> real \<Rightarrow> string \<times> body \<Rightarrow> (string \<times> pyval) list \<times> row list
     \<Rightarrow> ((string \<times> pyval) list \<times> row list) run" where
  \<comment> \<open>lines 124 to 136: one iteration of the loop over \<open>PLANETS.items()\<close>;
      \<open>positions\<close> is \<open>date_data['positions']\<close>. The line for the Moon differs from
      the others only in the number of digits of the distance it prints.\<close>
  "planet_body sw jd = (\<lambda>(planet_name, planet_id) (positions, rows).
     bind_run (calculate_position sw planet_id jd) (\<lambda>pos.
     bind_run (lift (get_float pos ''longitude'')) (\<lambda>zlon.
     bind_run (lift (format_zodiac (Finite zlon))) (\<lambda>zodiac.
     bind_run (lift (py_getitem pos ''is_retrograde'')) (\<lambda>r.
     bind_run (lift (get_float pos ''distance'')) (\<lambda>d.
     bind_run (lift (get_float pos ''longitude'')) (\<lambda>lo.
     bind_run (lift (get_float pos ''latitude'')) (\<lambda>la.
     bind_run (lift (get_float pos ''longitude_speed'')) (\<lambda>sp.
       ret (AList.update planet_name pos positions,
            rows @ [\<lparr>row_name = planet_name, row_longitude = lo, row_zodiac = zodiac,
                     row_latitude = la, row_distance = d, row_speed = sp,
                     row_retro = (if truthy r then ''R'' else [])\<rparr>]))))))))))"

definition date_body ::
  "env \<Rightarrow> real \<times> string \<Rightarrow> (string \<times> pyval) list \<times> (string \<times> row list) list
     \<Rightarrow> ((string \<times> pyval) list \<times> (string \<times> row list) list) run" where
  \<comment> \<open>lines 109 to 138: one iteration of the loop over \<open>TEST_DATES\<close>;
      \<open>dates\<close> is \<open>all_data['dates']\<close>\<close>
  "date_body e = (\<lambda>(jd, date_desc) (dates, tables).
     bind_run (for_loop PLANETS ([], []) (planet_body (swe e) jd)) (\<lambda>(positions, rows).
       ret (AList.update (float_repr e jd)
              (PDict [(''description'', PStr date_desc),
                      (''jd'', PFloat jd),
                      (''positions'', PDict positions)]) dates,
            tables @ [(date_desc, rows)])))"

definition all_data :: "env \<Rightarrow> (string \<times> pyval) list \<Rightarrow> pyval" where
  \<comment> \<open>lines 100 to 106, with \<open>all_data['dates']\<close> as the loop has filled it\<close>
  "all_data e dates =
     PDict [(''generator'', PStr ''pyswisseph''),
            (''version'', PStr (swe_version (swe e))),
            (''generated_at'', PStr (now_isoformat e)),
            (''dates'', PDict dates),
            (''planets'', PList (map (\<lambda>(name, planet_id). PStr name) PLANETS))]"

definition build :: "env \<Rightarrow> (pyval \<times> (string \<times> row list) list) run" where
  \<comment> \<open>lines 100 to 138 of \<open>main\<close>: \<open>all_data\<close> when the loop over the dates has ended\<close>
  "build e =
     bind_run (for_loop TEST_DATES ([], []) (date_body e)) (\<lambda>(dates, tables).
       ret (all_data e dates, tables))"

record key_value =
  \<comment> \<open>the values of one block of lines 154 to 161\<close>
  kv_name :: string
  kv_longitude :: pyval
  kv_zodiac :: "real \<times> string"
  kv_latitude :: pyval
  kv_distance :: pyval
  kv_speed :: pyval
  kv_retrograde :: pyval

definition key_value_body :: "pyval \<Rightarrow> string \<Rightarrow> key_value list \<Rightarrow> key_value list run" where
  "key_value_body j2000_data planet_name kvs =
     bind_run (lift (py_getitem j2000_data planet_name)) (\<lambda>pos.
     bind_run (lift (py_getitem pos ''longitude'')) (\<lambda>lo.
     bind_run (lift (get_float pos ''longitude'')) (\<lambda>zlon.
     bind_run (lift (format_zodiac (Finite zlon))) (\<lambda>zodiac.
     bind_run (lift (py_getitem pos ''latitude'')) (\<lambda>la.
     bind_run (lift (py_getitem pos ''distance'')) (\<lambda>d.
     bind_run (lift (py_getitem pos ''longitude_speed'')) (\<lambda>sp.
     bind_run (lift (py_getitem pos ''is_retrograde'')) (\<lambda>r.
       ret (kvs @ [\<lparr>kv_name = planet_name, kv_longitude = lo, kv_zodiac = zodiac,
                    kv_latitude = la, kv_distance = d, kv_speed = sp,
                    kv_retrograde = r\<rparr>])))))))))"

definition main :: "env \<Rightarrow> ((string \<times> row list) list \<times> key_value list) run" where
  "main e =
     bind_run (build e) (\<lambda>(data, tables).
     bind_run (write_file ''reference_ephemeris.json'' (json_dumps (float_repr e) 0 data)) (\<lambda>_.
     bind_run (lift (py_getitem data ''dates'')) (\<lambda>ds.
     bind_run (lift (py_getitem ds ''2451545.0'')) (\<lambda>dd.
     bind_run (lift (py_getitem dd ''positions'')) (\<lambda>j2000_data.
     bind_run (for_loop [''Sun'', ''Moon'', ''Mercury'', ''Venus'', ''Mars'', ''Jupiter''] []
                 (key_value_body j2000_data)) (\<lambda>kvs.
       ret (tables, kvs)))))))"

section \<open>einstein_chart.py\<close>

text \<open>
  The script's module constants \<open>YEAR\<close> ... \<open>LONGITUDE\<close> are the fields of a record, so
  that the body of \<open>main\<close> can be read at other birth data than the one the script fixes.
  \<open>PLANETS\<close> and \<open>CALC_FLAGS\<close> are the same as in the other script.
\<close>

record birth_data =
  YEAR :: int
  MONTH :: int
  DAY :: int
  HOUR_UT :: int
  MINUTE_UT :: int
  SECOND_UT :: int
  LATITUDE :: real
  LONGITUDE :: real

definition einstein :: birth_data where
  "einstein = \<lparr>YEAR = 1879, MONTH = 3, DAY = 14, HOUR_UT = 10, MINUTE_UT = 50,
               SECOND_UT = 0, LATITUDE = 48.4, LONGITUDE = 10.0\<rparr>"

type_synonym zodiac_ec = "int \<times> real \<times> string"

record planet_line =
  pl_name :: string
  pl_longitude :: real
  pl_zodiac :: zodiac_ec
  pl_latitude :: real
  pl_speed :: real
  pl_retro :: string

record chart_output =
  \<comment> \<open>the values \<open>main\<close> prints, before number formatting\<close>
  out_jd :: real
  out_delta_t_seconds :: real
  out_jd_tt :: real
  out_gmst :: real
  out_armc :: real
  out_lst :: real
  out_obliquity :: real
  out_asc :: "real \<times> zodiac_ec"
  out_mc :: "real \<times> zodiac_ec"
  out_armc_houses :: real
  out_vertex :: "real \<times> zodiac_ec"
  out_houses :: "(int \<times> real \<times> zodiac_ec) list"
  out_planets :: "planet_line list"
  out_points :: "(real \<times> zodiac_ec) list"
  out_summary :: "(real \<times> string \<times> real) list"

definition local_sidereal_time :: "real \<Rightarrow> real \<Rightarrow> real" where
  \<comment> \<open>lines 96 to 98: \<open>lst = armc + LONGITUDE\<close>, then \<open>if lst >= 360: lst -= 360\<close>\<close>
  "local_sidereal_time armc longitude =
     (let lst = armc + longitude in if 360 \<le> lst then lst - 360 else lst)"

definition angle :: "real list \<Rightarrow> int \<Rightarrow> (real \<times> zodiac_ec) run" where
  \<comment> \<open>\<open>xs[i]\<close> and \<open>format_zodiac(xs[i])\<close>, as in lines 119 to 122 and 126\<close>
  "angle xs i =
     bind_run (lift (py_index xs i)) (\<lambda>a.
     bind_run (lift (format_zodiac_ec (Finite a))) (\<lambda>z.
       ret (a, z)))"

definition house_body ::
  "real list \<Rightarrow> int \<Rightarrow> (int \<times> real \<times> zodiac_ec) list \<Rightarrow> (int \<times> real \<times> zodiac_ec) list run" where
  "house_body cusps i acc =
     bind_run (angle cusps i) (\<lambda>(c, z). ret (acc @ [(i, c, z)]))"

definition planet_line_body ::
  "swisseph \<Rightarrow> real \<Rightarrow> string \<times> body \<Rightarrow> planet_line list \<Rightarrow> planet_line list run" where
  \<comment> \<open>lines 137 to 143: one iteration of the loop over \<open>PLANETS.items()\<close>\<close>
  "planet_line_body sw jd = (\<lambda>(planet_name, planet_id) acc.
     bind_run (calc_ut sw jd planet_id CALC_FLAGS) (\<lambda>(result, retflag).
       let longitude = lon result;
           latitude = lat result;
           speed = lon_speed result;
           retro = (if speed < 0 then '' R'' else [])
       in bind_run (lift (format_zodiac_ec (Finite longitude))) (\<lambda>z.
            ret (acc @ [\<lparr>pl_name = planet_name, pl_longitude = longitude, pl_zodiac = z,
                         pl_latitude = latitude, pl_speed = speed, pl_retro = retro\<rparr>]))))"

definition point_body ::
  "swisseph \<Rightarrow> real \<Rightarrow> body \<Rightarrow> (real \<times> zodiac_ec) list \<Rightarrow> (real \<times> zodiac_ec) list run" where
  \<comment> \<open>lines 150 and 151, and the same for the other two points\<close>
  "point_body sw jd b acc =
     bind_run (calc_ut sw jd b CALC_FLAGS) (\<lambda>(result, _).
     bind_run (lift (format_zodiac_ec (Finite (lon result)))) (\<lambda>z.
       ret (acc @ [(lon result, z)])))"

definition summary_body ::
  "swisseph \<Rightarrow> real \<Rightarrow> body \<Rightarrow> (real \<times> string \<times> real) list
     \<Rightarrow> (real \<times> string \<times> real) list run" where
  \<comment> \<open>lines 184 to 186: three queries for one body, one for each value printed\<close>
  "summary_body sw jd b acc =
     bind_run (calc_ut sw jd b CALC_FLAGS) (\<lambda>(r1, _).
     bind_run (calc_ut sw jd b CALC_FLAGS) (\<lambda>(r2, _).
     bind_run (lift (py_index SIGNS (py_int (fdiv (lon r2) 30) mod 12))) (\<lambda>s.
     bind_run (calc_ut sw jd b CALC_FLAGS) (\<lambda>(r3, _).
       ret (acc @ [(lon r1, s, py_fmod (lon r3) 30)])))))"

definition summary_angle ::
  "real list \<Rightarrow> int \<Rightarrow> (real \<times> string \<times> real) list \<Rightarrow> (real \<times> string \<times> real) list run" where
  \<comment> \<open>lines 196 to 198, and 200 to 202\<close>
  "summary_angle ascmc i acc =
     bind_run (lift (py_index ascmc i)) (\<lambda>a.
     bind_run (lift (py_index SIGNS (py_int (fdiv a 30) mod 12))) (\<lambda>s.
       ret (acc @ [(a, s, py_fmod a 30)])))"

definition hour_decimal :: "birth_data \<Rightarrow> real" where
  \<comment> \<open>line 78: \<open>HOUR_UT + MINUTE_UT/60 + SECOND_UT/3600\<close>\<close>
  "hour_decimal b = of_int (HOUR_UT b) + of_int (MINUTE_UT b) / 60 + of_int (SECOND_UT b) / 3600"

definition chart :: "swisseph \<Rightarrow> birth_data \<Rightarrow> chart_output run" where
  \<comment> \<open>the body of \<open>main\<close>\<close>
  "chart sw b =
     (bind_run (julday sw (YEAR b) (MONTH b) (DAY b) (hour_decimal b)) (\<lambda>jd.
     bind_run (deltat sw jd) (\<lambda>delta_t.
       let jd_tt = jd + delta_t in
     bind_run (sidtime sw jd) (\<lambda>st.
       let armc = st * 15 in
     bind_run (sidtime sw jd) (\<lambda>gmst.
       let lst = local_sidereal_time armc (LONGITUDE b) in
     bind_run (calc sw jd ECL_NUT) (\<lambda>eps_data.
       let obliquity = lon (fst eps_data) in
     bind_run (houses sw jd (LATITUDE b) (LONGITUDE b) CHR ''P'') (\<lambda>(cusps, ascmc).
     bind_run (angle ascmc 0) (\<lambda>asc.
     bind_run (angle ascmc 1) (\<lambda>mc.
     bind_run (lift (py_index ascmc 2)) (\<lambda>armc_houses.
     bind_run (angle ascmc 3) (\<lambda>vertex.
     bind_run (for_loop [1 .. min 13 (int (length cusps)) - 1] [] (house_body cusps)) (\<lambda>hs.
     bind_run (for_loop PLANETS [] (planet_line_body sw jd)) (\<lambda>pls.
     bind_run (for_loop [TRUE_NODE, MEAN_NODE, MEAN_APOG] [] (point_body sw jd)) (\<lambda>pts.
     bind_run (for_loop [SUN, MOON, MERCURY] [] (summary_body sw jd)) (\<lambda>s3.
     bind_run (summary_angle ascmc 0 s3) (\<lambda>s4.
     bind_run (summary_angle ascmc 1 s4) (\<lambda>s5.
       ret \<lparr>out_jd = jd, out_delta_t_seconds = delta_t * 86400, out_jd_tt = jd_tt,
            out_gmst = gmst, out_armc = armc, out_lst = lst, out_obliquity = obliquity,
            out_asc = asc, out_mc = mc, out_armc_houses = armc_houses, out_vertex = vertex,
            out_houses = hs, out_planets = pls, out_points = pts,
            out_summary = s5\<rparr>)))))))))))))))))"

definition main_ec :: "swisseph \<Rightarrow> chart_output run" where
  \<comment> \<open>\<open>einstein_chart.main\<close>\<close>
  "main_ec sw = chart sw einstein"

section \<open>Notions used in the statements about the dataset\<close>

definition table_row :: "string \<Rightarrow> xx \<Rightarrow> row" where
  "table_row name result =
     \<lparr>row_name = name,
      row_longitude = py_round (lon result) 6,
      row_zodiac = (degrees (py_round (lon result) 6),
                    signs ! nat (sign_idx (py_round (lon result) 6))),
      row_latitude = py_round (lat result) 6,
      row_distance = py_round (dist result) 6,
      row_speed = py_round (lon_speed result) 6,
      row_retro = (if lon_speed result < 0 then ''R'' else [])\<rparr>"

fun dict_items :: "pyval \<Rightarrow> (string \<times> pyval) list" where
  "dict_items (PDict kvs) = kvs"
| "dict_items _ = []"

definition dataset_records :: "pyval \<Rightarrow> (string \<times> string \<times> pyval) list" where
  "dataset_records data =
     [(key, name, pos).
        (k0, ds) \<leftarrow> dict_items data, k0 = ''dates'',
        (key, dd) \<leftarrow> dict_items ds,
        (k1, ps) \<leftarrow> dict_items dd, k1 = ''positions'',
        (name, pos) \<leftarrow> dict_items ps]"

definition answers :: "swisseph \<Rightarrow> real \<Rightarrow> string \<times> pyval \<Rightarrow> bool" where
  "answers sw jd = (\<lambda>(name, pos). \<exists>b result retflag.
     (name, b) \<in> set PLANETS \<and> swe_calc_ut sw jd b CALC_FLAGS = Inr (result, retflag)
     \<and> pos = position result)"

definition date_entry :: "env \<Rightarrow> string \<times> pyval \<Rightarrow> bool" where
  "date_entry e = (\<lambda>(key, dd). \<exists>jd date_desc positions.
     (jd, date_desc) \<in> set TEST_DATES \<and> key = float_repr e jd
     \<and> dd = PDict [(''description'', PStr date_desc), (''jd'', PFloat jd),
                    (''positions'', PDict positions)]
     \<and> (\<forall>p \<in> set positions. answers (swe e) jd p))"

definition zodiac_ec_of :: "real \<Rightarrow> zodiac_ec" where
  \<comment> \<open>the value of \<open>format_zodiac_ec\<close> on a finite longitude\<close>
  "zodiac_ec_of L =
     (py_int (degrees L), fmul (fsub (degrees L) (of_int (py_int (degrees L)))) 60,
      SIGNS ! nat (sign_idx L))"

definition chart_effect :: "swisseph \<Rightarrow> birth_data \<Rightarrow> effect \<Rightarrow> bool" where
  \<comment> \<open>the calls a run of \<open>chart\<close> may make: \<open>julday\<close> on the calendar fields, and calls
      on the Julian Day that \<open>julday\<close> returned\<close>
  "chart_effect sw bd ef \<longleftrightarrow>
     ef = Julday (YEAR bd) (MONTH bd) (DAY bd) (hour_decimal bd)
     \<or> (\<exists>jd. swe_julday sw (YEAR bd) (MONTH bd) (DAY bd) (hour_decimal bd) = Inr jd
          \<and> (ef = Deltat jd \<or> ef = Sidtime jd \<or> ef = Calc jd ECL_NUT
               \<or> ef = Houses jd (LATITUDE bd) (LONGITUDE bd) CHR ''P''
               \<or> (\<exists>b. ef = CalcUt jd b CALC_FLAGS)))"

definition planet_line_of :: "string \<Rightarrow> xx \<Rightarrow> planet_line" where
  "planet_line_of name result =
     \<lparr>pl_name = name,
      pl_longitude = lon result,
      pl_zodiac = zodiac_ec_of (lon result),
      pl_latitude = lat result,
      pl_speed = lon_speed result,
      pl_retro = (if lon_speed result < 0 then '' R'' else [])\<rparr>"

definition query_schedule :: "effect list" where
  \<comment> \<open>the position queries of a dataset build that is not cut short: for each test date
      in turn, one query per planet at the Julian Day of that date\<close>
  "query_schedule =
     concat (map (\<lambda>(jd, date_desc).
       map (\<lambda>(planet_name, planet_id). CalcUt jd planet_id CALC_FLAGS) PLANETS) TEST_DATES)"

fun starts_with :: "string \<Rightarrow> string \<Rightarrow> bool" where
  "starts_with [] ys = True"
| "starts_with (x # xs) [] = False"
| "starts_with (x # xs) (y # ys) = (x = y \<and> starts_with xs ys)"

fun str_contains :: "string \<Rightarrow> string \<Rightarrow> bool" where
  \<comment> \<open>\<open>str_contains p s\<close>: the text \<open>p\<close> occurs in \<open>s\<close>\<close>
  "str_contains p [] = starts_with p []"
| "str_contains p (y # ys) = (starts_with p (y # ys) \<or> str_contains p ys)"

fun calc_ut_jds :: "effect list \<Rightarrow> real list" where
  \<comment> \<open>the Julian Days that a run has passed to \<open>swe.calc_ut\<close>, in order\<close>
  "calc_ut_jds [] = []"
| "calc_ut_jds (CalcUt jd b fl # effs) = jd # calc_ut_jds effs"
| "calc_ut_jds (_ # effs) = calc_ut_jds effs"

fun written :: "effect list \<Rightarrow> (string \<times> string) list" where
  \<comment> \<open>the files that a run has written, in order\<close>
  "written [] = []"
| "written (WriteFile path txt # effs) = (path, txt) # written effs"
| "written (_ # effs) = written effs"

definition with_generated_at :: "string \<Rightarrow> pyval \<Rightarrow> pyval" where
  \<comment> \<open>a dataset with another value in its field \<open>generated_at\<close>\<close>
  "with_generated_at t data =
     (case data of
        PDict kvs \<Rightarrow> PDict (AList.update ''generated_at'' (PStr t) kvs)
      | _ \<Rightarrow> data)"

section \<open>A sample environment\<close>

text \<open>
  A library that answers every query (Mercury retrograde by less than the rounding step,
  Saturn stationary), whose \<open>julday\<close> accepts any calendar fields, and a rendering of
  floats that is right on the six test dates.
\<close>

definition demo_xx :: xx where
  "demo_xx = \<lparr>lon = 280.3689184, lat = 0.0002274, dist = 0.9833276,
              lon_speed = 1.0194321, lat_speed = 0, dist_speed = 0\<rparr>"

definition demo_retro_xx :: xx where
  "demo_retro_xx = \<lparr>lon = 271.8892756, lat = - 0.9948, dist = 1.4155,
                    lon_speed = - 1 / 10 ^ 7, lat_speed = 0.0927, dist_speed = 0\<rparr>"

definition demo_station_xx :: xx where
  "demo_station_xx = \<lparr>lon = 40.3956, lat = - 2.4449, dist = 8.6528,
                      lon_speed = 0, lat_speed = 0.0022, dist_speed = 0\<rparr>"

definition demo_answer :: "body \<Rightarrow> xx" where
  "demo_answer b =
     (if b = MERCURY then demo_retro_xx else if b = SATURN then demo_station_xx else demo_xx)"

definition demo_swe :: swisseph where
  "demo_swe =
     \<lparr>swe_version = ''2.10.03'',
      swe_julday = (\<lambda>y m d h. Inr (of_int (365 * y + 31 * m + d) + h / 24)),
      swe_deltat = (\<lambda>jd. Inr (1 / 8640)),
      swe_sidtime = (\<lambda>jd. Inr 1.5),
      swe_calc = (\<lambda>jd b. Inr (demo_xx, 0)),
      swe_calc_ut = (\<lambda>jd b fl. Inr (demo_answer b, 256)),
      swe_houses = (\<lambda>jd la lo hsys.
         Inr ([0, 15, 45, 75, 105, 135, 165, 195, 225, 255, 285, 315, 345],
              [15, 285, 22.5, 200, 0, 0, 0, 0, 0, 0]))\<rparr>"

definition strict_swe :: swisseph where
  \<comment> \<open>the same library with a \<open>julday\<close> that rejects a month outside 1..12 and a day
      outside 1..31\<close>
  "strict_swe =
     demo_swe\<lparr>swe_julday := (\<lambda>y m d h.
       if 1 \<le> m \<and> m \<le> 12 \<and> 1 \<le> d \<and> d \<le> 31
       then Inr (of_int (365 * y + 31 * m + d) + h / 24)
       else Inl (SweError ''invalid date''))\<rparr>"

definition no_pluto_swe :: swisseph where
  \<comment> \<open>the same library without an ephemeris for Pluto\<close>
  "no_pluto_swe =
     demo_swe\<lparr>swe_calc_ut := (\<lambda>jd b fl.
       if b = PLUTO then Inl (SweError ''no ephemeris for this body'')
       else Inr (demo_answer b, 256))\<rparr>"

definition demo_repr :: "real \<Rightarrow> string" where
  "demo_repr r =
     (if r = 2451545.0 then ''2451545.0''
      else if r = 2448724.5 then ''2448724.5''
      else if r = 2415020.5 then ''2415020.5''
      else if r = 2440587.5 then ''2440587.5''
      else if r = 2459580.5 then ''2459580.5''
      else if r = 2488069.5 then ''2488069.5''
      else ''0.0'')"

definition demo_env :: env where
  "demo_env =
     \<lparr>swe = demo_swe, now_isoformat = ''2025-01-01T12:00:00'', float_repr = demo_repr\<rparr>"

definition no_pluto_env :: env where
  "no_pluto_env = demo_env\<lparr>swe := no_pluto_swe\<rparr>"

definition demo_positions :: "(string \<times> pyval) list" where
  "demo_positions = map (\<lambda>(name, b). (name, position (demo_answer b))) PLANETS"

definition demo_rows :: "row list" where
  "demo_rows = map (\<lambda>(name, b). table_row name (demo_answer b)) PLANETS"

definition demo_dates :: "(string \<times> pyval) list" where
  "demo_dates = map (\<lambda>(jd, date_desc). (demo_repr jd,
       PDict [(''description'', PStr date_desc), (''jd'', PFloat jd),
              (''positions'', PDict demo_positions)])) TEST_DATES"

definition demo_tables :: "(string \<times> row list) list" where
  "demo_tables = map (\<lambda>(jd, date_desc). (date_desc, demo_rows)) TEST_DATES"

definition demo_jd :: "birth_data \<Rightarrow> real" where
  \<comment> \<open>what \<open>julday\<close> of the sample library returns on the fields of \<open>bd\<close>\<close>
  "demo_jd bd = of_int (365 * YEAR bd + 31 * MONTH bd + DAY bd) + hour_decimal bd / 24"

definition demo_chart :: "birth_data \<Rightarrow> chart_output" where
  "demo_chart bd =
     \<lparr>out_jd = demo_jd bd, out_delta_t_seconds = 10, out_jd_tt = demo_jd bd + 1 / 8640,
      out_gmst = 1.5, out_armc = 22.5,
      out_lst = local_sidereal_time 22.5 (LONGITUDE bd),
      out_obliquity = 280.3689184,
      out_asc = (15, zodiac_ec_of 15), out_mc = (285, zodiac_ec_of 285),
      out_armc_houses = 22.5, out_vertex = (200, zodiac_ec_of 200),
      out_houses = map (\<lambda>(i, c). (i, c, zodiac_ec_of c))
        [(1, 15), (2, 45), (3, 75), (4, 105), (5, 135), (6, 165), (7, 195), (8, 225),
         (9, 255), (10, 285), (11, 315), (12, 345)],
      out_planets = map (\<lambda>(name, b). planet_line_of name (demo_answer b)) PLANETS,
      out_points = map (\<lambda>b. (lon (demo_answer b), zodiac_ec_of (lon (demo_answer b))))
        [TRUE_NODE, MEAN_NODE, MEAN_APOG],
      out_summary =
        map (\<lambda>b. (lon (demo_answer b), SIGNS ! nat (sign_idx (lon (demo_answer b))),
                  degrees (lon (demo_answer b)))) [SUN, MOON, MERCURY]
        @ [(15, SIGNS ! nat (sign_idx 15), degrees 15),
           (285, SIGNS ! nat (sign_idx 285), degrees 285)]\<rparr>"

definition demo_chart_effects :: "birth_data \<Rightarrow> effect list" where
  "demo_chart_effects bd =
     [Julday (YEAR bd) (MONTH bd) (DAY bd) (hour_decimal bd), Deltat (demo_jd bd),
      Sidtime (demo_jd bd), Sidtime (demo_jd bd), Calc (demo_jd bd) ECL_NUT,
      Houses (demo_jd bd) (LATITUDE bd) (LONGITUDE bd) CHR ''P'']
     @ map (\<lambda>b. CalcUt (demo_jd bd) b FLG_SPEED)
        [SUN, MOON, MERCURY, VENUS, MARS, JUPITER, SATURN, URANUS, NEPTUNE, PLUTO,
         TRUE_NODE, MEAN_NODE, MEAN_APOG,
         SUN, SUN, SUN, MOON, MOON, MOON, MERCURY, MERCURY, MERCURY]"

section \<open>Binary64 rounding and the zodiac formatting\<close>

lemma ulp_pos [simp]: "0 < ulp x"
  by (simp add: ulp_def)

lemma rhe_ge: "of_int N \<le> y \<Longrightarrow> N \<le> round_half_even y"
proof -
  assume "of_int N \<le> y"
  then have "N \<le> \<lfloor>y\<rfloor>" by (simp add: le_floor_iff)
  then show ?thesis by (auto simp: round_half_even_def Let_def)
qed

lemma rhe_le: "y \<le> of_int N \<Longrightarrow> round_half_even y \<le> N"
proof -
  assume a: "y \<le> of_int N"
  show ?thesis
  proof (cases "y = of_int N")
    case True
    then show ?thesis by (simp add: round_half_even_def)
  next
    case False
    then have "y < of_int N" using a by simp
    then have "\<lfloor>y\<rfloor> < N" by (simp add: floor_less_iff)
    then show ?thesis by (auto simp: round_half_even_def Let_def)
  qed
qed

lemma rhe_less: "y < of_int N - 1 / 2 \<Longrightarrow> round_half_even y < N"
proof -
  assume a: "y < of_int N - 1 / 2"
  have f: "of_int \<lfloor>y\<rfloor> \<le> y" by simp
  have "\<lfloor>y\<rfloor> < N" using a by (simp add: floor_less_iff)
  then have c: "\<lfloor>y\<rfloor> \<le> N - 1" by simp
  show ?thesis
  proof (cases "\<lfloor>y\<rfloor> = N - 1")
    case True
    then have "y - of_int \<lfloor>y\<rfloor> < 1 / 2" using a by simp
    then show ?thesis using True by (simp add: round_half_even_def Let_def)
  next
    case False
    then have "\<lfloor>y\<rfloor> + 1 < N" using c by simp
    then show ?thesis by (auto simp: round_half_even_def Let_def)
  qed
qed

lemma rhe_of_int [simp]: "round_half_even (of_int N) = N"
  by (simp add: round_half_even_def)

lemma exponent_eq:
  assumes "2 powr of_int e \<le> \<bar>x\<bar>" and "\<bar>x\<bar> < 2 powr of_int (e + 1)" and "- 1022 \<le> e"
  shows "exponent x = e"
proof -
  have "0 < \<bar>x\<bar>" using assms(1) by (smt (verit) powr_gt_zero)
  then have "\<lfloor>log 2 \<bar>x\<bar>\<rfloor> = e"
    using assms(1,2) by (simp add: floor_log_eq_powr_iff)
  then show ?thesis using assms(3) by (simp add: exponent_def)
qed

lemma exponent_le:
  assumes "x \<noteq> 0" and "\<bar>x\<bar> < 2 powr of_int (e + 1)" and "- 1022 \<le> e"
  shows "exponent x \<le> e"
proof -
  have p: "0 < \<bar>x\<bar>" using assms(1) by simp
  have "log 2 \<bar>x\<bar> < of_int (e + 1)"
    using assms(2) p by (simp add: log_less_iff)
  then have "\<lfloor>log 2 \<bar>x\<bar>\<rfloor> < e + 1" by (subst floor_less_iff) simp
  then show ?thesis using assms(3) by (simp add: exponent_def)
qed

lemma exponent_ge:
  assumes "2 powr of_int e \<le> \<bar>x\<bar>"
  shows "e \<le> exponent x"
proof -
  have p: "0 < \<bar>x\<bar>" using assms(1) by (smt (verit) powr_gt_zero)
  have "of_int e \<le> log 2 \<bar>x\<bar>"
    using assms p by (simp add: le_log_iff)
  then have "e \<le> \<lfloor>log 2 \<bar>x\<bar>\<rfloor>" by (simp add: le_floor_iff)
  then show ?thesis by (simp add: exponent_def)
qed

lemma abs_less_exponent:
  assumes "x \<noteq> 0"
  shows "\<bar>x\<bar> < 2 powr of_int (exponent x + 1)"
proof -
  have p: "0 < \<bar>x\<bar>" using assms by simp
  have "log 2 \<bar>x\<bar> < of_int (\<lfloor>log 2 \<bar>x\<bar>\<rfloor> + 1)" by linarith
  also have "\<dots> \<le> of_int (exponent x + 1)" by (simp add: exponent_def)
  finally have "log 2 \<bar>x\<bar> < of_int (exponent x + 1)" .
  then show ?thesis using p by (simp add: log_less_iff)
qed

text \<open>an integer is a multiple of every ulp that is at most 1\<close>

lemma int_multiple_of_ulp:
  assumes "exponent z \<le> 52"
  shows "\<exists>N :: int. of_int k = ulp z * of_int N"
proof -
  define n where "n = nat (52 - exponent z)"
  have "ulp z = 2 powr (- of_nat n)"
    using assms by (simp add: ulp_def n_def)
  then have u: "ulp z = 1 / 2 ^ n"
    by (simp add: powr_minus powr_realpow inverse_eq_divide)
  have "of_int k = ulp z * of_int (k * 2 ^ n)"
    by (simp add: u)
  then show ?thesis by blast
qed

lemma round_le_multiple:
  assumes "0 < z" and "z \<le> ulp z * of_int N"
  shows "binary64_round z \<le> ulp z * of_int N"
proof -
  have "z / ulp z \<le> of_int N" using assms(2) by (simp add: pos_divide_le_eq mult.commute)
  then have "round_half_even (z / ulp z) \<le> N" by (rule rhe_le)
  then have "ulp z * of_int (round_half_even (z / ulp z)) \<le> ulp z * of_int N"
    by (simp add: mult_le_cancel_left_pos)
  then show ?thesis using assms(1) by (simp add: binary64_round_def)
qed

lemma round_ge_multiple:
  assumes "0 < z" and "ulp z * of_int N \<le> z"
  shows "ulp z * of_int N \<le> binary64_round z"
proof -
  have "of_int N \<le> z / ulp z" using assms(2) by (simp add: pos_le_divide_eq mult.commute)
  then have "N \<le> round_half_even (z / ulp z)" by (rule rhe_ge)
  then have "ulp z * of_int N \<le> ulp z * of_int (round_half_even (z / ulp z))"
    by (simp add: mult_le_cancel_left_pos)
  then show ?thesis using assms(1) by (simp add: binary64_round_def)
qed

lemma round_less_multiple:
  assumes "0 < z" and "z < ulp z * of_int N - ulp z / 2"
  shows "binary64_round z < ulp z * of_int N"
proof -
  have "z < ulp z * (of_int N - 1 / 2)" using assms(2) by (simp add: algebra_simps)
  then have "z / ulp z < of_int N - 1 / 2" by (simp add: pos_divide_less_eq mult.commute)
  then have "round_half_even (z / ulp z) < N" by (rule rhe_less)
  then have "ulp z * of_int (round_half_even (z / ulp z)) < ulp z * of_int N"
    by (simp add: mult_less_cancel_left_pos)
  then show ?thesis using assms(1) by (simp add: binary64_round_def)
qed

lemma round_nonneg: "0 \<le> z \<Longrightarrow> 0 \<le> binary64_round z"
proof (cases "z = 0")
  case True
  then show ?thesis by (simp add: binary64_round_def)
next
  case False
  assume "0 \<le> z"
  then have "0 < z" using False by simp
  moreover have "ulp z * of_int 0 \<le> z" using \<open>0 \<le> z\<close> by simp
  ultimately have "ulp z * of_int 0 \<le> binary64_round z" by (rule round_ge_multiple)
  then show ?thesis by simp
qed

lemma rhe_ge_half: "of_int N - 1 / 2 < y \<Longrightarrow> N \<le> round_half_even y"
proof -
  assume a: "of_int N - 1 / 2 < y"
  have "of_int (N - 1) \<le> y" using a by simp
  then have c: "N - 1 \<le> \<lfloor>y\<rfloor>" by (subst le_floor_iff)
  show ?thesis
  proof (cases "\<lfloor>y\<rfloor> = N - 1")
    case True
    then have "1 / 2 < y - of_int \<lfloor>y\<rfloor>" using a by simp
    then show ?thesis using True by (simp add: round_half_even_def Let_def)
  next
    case False
    then have "N \<le> \<lfloor>y\<rfloor>" using c by simp
    then show ?thesis by (auto simp: round_half_even_def Let_def)
  qed
qed

lemma ulp_le_1: "exponent z \<le> 52 \<Longrightarrow> ulp z \<le> 1"
proof -
  assume "exponent z \<le> 52"
  then have "(2 :: real) powr of_int (exponent z - 52) \<le> 2 powr 0"
    by (subst powr_le_cancel_iff) simp_all
  then show ?thesis by (simp add: ulp_def)
qed

lemma exponent_le_52: "\<bar>z\<bar> < 2 ^ 53 \<Longrightarrow> exponent z \<le> 52"
proof (cases "z = 0")
  case True
  then show ?thesis by (simp add: exponent_def log_def)
next
  case False
  assume "\<bar>z\<bar> < 2 ^ 53"
  then have "\<bar>z\<bar> < 2 powr of_int (52 + 1)" by simp
  then show ?thesis using False by (intro exponent_le) simp_all
qed

lemma floor_round_div30:
  assumes d: "is_binary64 L" and n: "0 \<le> L" and b: "L < 2 ^ 53"
  shows "\<lfloor>binary64_round (L / 30)\<rfloor> = \<lfloor>L / 30\<rfloor>"
proof (cases "L = 0")
  case True
  then show ?thesis by (simp add: binary64_round_def)
next
  case False
  then have Lpos: "0 < L" using n by simp
  define z where "z = L / 30"
  define k where "k = \<lfloor>z\<rfloor> + 1"
  have zpos: "0 < z" using Lpos by (simp add: z_def)
  have zk: "of_int (k - 1) \<le> z" "z < of_int k"
    unfolding k_def by simp_all
  have ez: "exponent z \<le> 52"
    using b n by (intro exponent_le_52) (simp add: z_def)
  have uz1: "ulp z \<le> 1" by (rule ulp_le_1 [OF ez])
  \<comment> \<open>the rounded quotient is not below \<open>k - 1\<close>\<close>
  obtain N1 :: int where N1: "of_int (k - 1) = ulp z * of_int N1"
    using int_multiple_of_ulp [OF ez] by blast
  have lower: "of_int (k - 1) \<le> binary64_round z"
    using round_ge_multiple [OF zpos, of N1] zk(1) N1 by simp
  \<comment> \<open>the rounded quotient is below \<open>k\<close>\<close>
  obtain N2 :: int where N2: "of_int k = ulp z * of_int N2"
    using int_multiple_of_ulp [OF ez] by blast
  have gap: "ulp z / 2 < of_int k - z"
  proof (cases "L < 1")
    case True
    then have "z < 1 / 30" by (simp add: z_def)
    then have "\<lfloor>z\<rfloor> = 0" using zpos by (simp add: floor_eq_iff)
    then have "k = 1" by (simp add: k_def)
    then show ?thesis using \<open>z < 1 / 30\<close> uz1 by simp
  next
    case False
    then have L1: "1 \<le> L" by simp
    have eL: "exponent L \<le> 52"
      using b n by (intro exponent_le_52) simp
    have eL0: "0 \<le> exponent L"
      using L1 by (intro exponent_ge) simp
    \<comment> \<open>\<open>L\<close> and \<open>30 * k\<close> are multiples of the ulp of \<open>L\<close>, so they are an ulp apart\<close>
    have "L = ulp L * of_int (round_half_even (L / ulp L))"
      using d Lpos by (simp add: is_binary64_def binary64_round_def)
    then obtain M :: int where M: "L = ulp L * of_int M" by blast
    obtain N3 :: int where N3: "of_int (30 * k) = ulp L * of_int N3"
      using int_multiple_of_ulp [OF eL] by blast
    have "L < of_int (30 * k)" using zk(2) by (simp add: z_def)
    then have "ulp L * of_int M < ulp L * of_int N3" using M N3 by simp
    then have "M < N3" by (simp add: mult_less_cancel_left_pos)
    then have "of_int M + 1 \<le> (of_int N3 :: real)" by linarith
    then have "ulp L * (of_int M + 1) \<le> ulp L * of_int N3"
      by (simp add: mult_le_cancel_left_pos)
    then have "L + ulp L \<le> of_int (30 * k)"
      using M N3 by (simp add: algebra_simps)
    then have g: "ulp L / 30 \<le> of_int k - z"
      by (simp add: z_def field_simps)
    \<comment> \<open>the quotient lies at least four binades below \<open>L\<close>\<close>
    have "z < 2 powr of_int (exponent L + 1) / 30"
      using abs_less_exponent [of L] Lpos by (simp add: z_def divide_strict_right_mono)
    also have "\<dots> \<le> 2 powr of_int (exponent L + 1) / 16"
      by (simp add: frac_le)
    also have "\<dots> = 2 powr of_int (exponent L + 1) * 2 powr (- 4)"
      by (simp add: powr_minus)
    also have "\<dots> = 2 powr of_int (exponent L - 4 + 1)"
      by (simp flip: powr_add)
    finally have "\<bar>z\<bar> < 2 powr of_int (exponent L - 4 + 1)" using zpos by simp
    then have "exponent z \<le> exponent L - 4"
      using zpos eL0 by (intro exponent_le) simp_all
    then have "(2 :: real) powr of_int (exponent z - 52) \<le> 2 powr of_int (exponent L - 4 - 52)"
      by (subst powr_le_cancel_iff) simp_all
    also have "\<dots> = 2 powr of_int (exponent L - 52) * 2 powr (- 4)"
      by (simp flip: powr_add)
    also have "\<dots> = ulp L / 16" by (simp add: ulp_def powr_minus)
    finally have "ulp z \<le> ulp L / 16" by (simp add: ulp_def)
    then have "ulp z / 2 \<le> ulp L / 32" by simp
    also have "\<dots> < ulp L / 30" by (simp add: divide_strict_left_mono)
    finally show ?thesis using g by simp
  qed
  have "z < ulp z * of_int N2 - ulp z / 2" using gap N2 by simp
  then have upper: "binary64_round z < of_int k"
    using round_less_multiple [OF zpos, of N2] N2 by simp
  have "\<lfloor>binary64_round z\<rfloor> = k - 1"
    using lower upper by (simp add: floor_eq_iff)
  then show ?thesis by (simp add: k_def z_def)
qed

lemma binary64_round_eval:
  assumes "2 powr of_int e \<le> \<bar>x\<bar>" and "\<bar>x\<bar> < 2 powr of_int (e + 1)" and "- 1022 \<le> e"
  shows "binary64_round x =
           2 powr of_int (e - 52) * of_int (round_half_even (x / 2 powr of_int (e - 52)))"
proof -
  have "x \<noteq> 0" using assms(1) by (smt (verit) powr_gt_zero)
  then show ?thesis
    using exponent_eq [OF assms] by (simp add: binary64_round_def ulp_def)
qed

lemma c_fmod_nonneg: "0 \<le> L \<Longrightarrow> c_fmod L 30 = L - 30 * of_int \<lfloor>L / 30\<rfloor>"
  by (simp add: c_fmod_def py_int_def)

lemma c_fmod_nonneg_range: "0 \<le> L \<Longrightarrow> 0 \<le> c_fmod L 30 \<and> c_fmod L 30 < 30"
proof -
  assume a: "0 \<le> L"
  define q where "q = L / 30"
  have L: "L = 30 * q" by (simp add: q_def)
  have "of_int \<lfloor>q\<rfloor> \<le> q" and "q < of_int \<lfloor>q\<rfloor> + 1"
    by linarith+
  then have "0 \<le> 30 * q - 30 * of_int \<lfloor>q\<rfloor>" "30 * q - 30 * of_int \<lfloor>q\<rfloor> < 30"
    by linarith+
  moreover have "c_fmod L 30 = 30 * q - 30 * of_int \<lfloor>q\<rfloor>"
    using a by (simp add: c_fmod_nonneg L)
  ultimately show ?thesis by simp
qed

lemma c_fmod_neg_range: "L < 0 \<Longrightarrow> - 30 < c_fmod L 30 \<and> c_fmod L 30 \<le> 0"
proof -
  assume a: "L < 0"
  define q where "q = L / 30"
  have L: "L = 30 * q" by (simp add: q_def)
  have "q \<le> of_int \<lceil>q\<rceil>" and "of_int \<lceil>q\<rceil> < q + 1"
    by linarith+
  then have "- 30 < 30 * q - 30 * of_int \<lceil>q\<rceil>" "30 * q - 30 * of_int \<lceil>q\<rceil> \<le> 0"
    by linarith+
  moreover have "c_fmod L 30 = 30 * q - 30 * of_int \<lceil>q\<rceil>"
    using a by (simp add: c_fmod_def py_int_def L)
  ultimately show ?thesis by simp
qed

lemma degrees_nonneg: "0 \<le> L \<Longrightarrow> degrees L = L - 30 * of_int \<lfloor>L / 30\<rfloor>"
  using c_fmod_nonneg_range [of L]
  by (simp add: degrees_def py_fmod_def Let_def c_fmod_nonneg)

lemma degrees_nonneg_range: "0 \<le> L \<Longrightarrow> 0 \<le> degrees L \<and> degrees L < 30"
  using c_fmod_nonneg_range [of L] by (simp add: degrees_nonneg c_fmod_nonneg)

lemma round_within_30:
  assumes "0 < y" and "y < 30"
  shows "0 \<le> binary64_round y \<and> binary64_round y \<le> 30"
proof -
  have e: "exponent y \<le> 52"
    using assms by (intro exponent_le_52) simp
  obtain N :: int where N: "of_int 30 = ulp y * of_int N"
    using int_multiple_of_ulp [OF e] by blast
  have "binary64_round y \<le> ulp y * of_int N"
    using assms N by (intro round_le_multiple) simp_all
  then show ?thesis
    using N round_nonneg [of y] assms(1) by simp
qed

lemma degrees_range: "0 \<le> degrees L \<and> degrees L \<le> 30"
proof (cases "0 \<le> L")
  case True
  then show ?thesis using degrees_nonneg_range [of L] by simp
next
  case False
  then have n: "L < 0" by simp
  show ?thesis
  proof (cases "c_fmod L 30 = 0")
    case True
    then show ?thesis by (simp add: degrees_def py_fmod_def)
  next
    case False
    then have m: "c_fmod L 30 < 0" "- 30 < c_fmod L 30"
      using c_fmod_neg_range [OF n] by simp_all
    then have "degrees L = binary64_round (c_fmod L 30 + 30)"
      by (simp add: degrees_def py_fmod_def fadd_def)
    then show ?thesis
      using round_within_30 [of "c_fmod L 30 + 30"] m by simp
  qed
qed

lemma sign_idx_range: "0 \<le> sign_idx L \<and> sign_idx L < 12"
  by (simp add: sign_idx_def)

lemma sign_idx_floor:
  assumes "is_binary64 L" and "0 \<le> L" and "L < 2 ^ 53"
  shows "sign_idx L = \<lfloor>L / 30\<rfloor> mod 12"
proof -
  have "0 \<le> binary64_round (L / 30)"
    using assms(2) by (intro round_nonneg) simp
  then have "py_int (binary64_round (L / 30)) = \<lfloor>L / 30\<rfloor>"
    using floor_round_div30 [OF assms] by (simp add: py_int_def)
  then show ?thesis by (simp add: sign_idx_def fdiv_def)
qed

lemma reconstruction:
  assumes "is_binary64 L" and "0 \<le> L" and "L < 360"
  shows "of_int (sign_idx L) * 30 + degrees L = L"
proof -
  have "0 \<le> L / 30" "L / 30 < 12" using assms by simp_all
  then have "0 \<le> \<lfloor>L / 30\<rfloor>" "\<lfloor>L / 30\<rfloor> < 12" by (simp_all add: floor_less_iff)
  then have "\<lfloor>L / 30\<rfloor> mod 12 = \<lfloor>L / 30\<rfloor>" by simp
  moreover have "L < 2 ^ 53" using assms(3) by simp
  ultimately have "sign_idx L = \<lfloor>L / 30\<rfloor>"
    using sign_idx_floor [OF assms(1,2)] by simp
  then show ?thesis using degrees_nonneg [OF assms(2)] by simp
qed

lemma round_15: "binary64_round 15 = 15"
  by (subst binary64_round_eval [where e = 3]) (simp_all add: round_half_even_def powr_neg_numeral)

lemma round_45: "binary64_round 45 = 45"
  by (subst binary64_round_eval [where e = 5]) (simp_all add: round_half_even_def powr_neg_numeral)

lemma round_minus_half: "binary64_round (- 1 / 2) = - 1 / 2"
  by (subst binary64_round_eval [where e = "- 1"]) (simp_all add: round_half_even_def powr_neg_numeral)

lemma round_three_halves: "binary64_round (3 / 2) = 3 / 2"
  by (subst binary64_round_eval [where e = 0]) (simp_all add: round_half_even_def powr_neg_numeral)

lemma ceiling_minus_half: "\<lceil>- (1 / 2) :: real\<rceil> = 0"
  by (simp add: ceiling_eq_iff)

lemma sign_idx_minus_15: "sign_idx (- 15) = 0"
  using round_minus_half by (simp add: sign_idx_def fdiv_def py_int_def ceiling_minus_half)

lemma degrees_minus_15: "degrees (- 15) = 15"
  by (simp add: degrees_def py_fmod_def c_fmod_def py_int_def fadd_def round_15
      ceiling_minus_half)

lemma degrees_tiny_negative: "degrees (- 1 / 2 ^ 70) = 30"
proof -
  define t :: real where "t = - 1 / 2 ^ 70"
  define x :: real where "x = t + 30"
  have t: "t < 0" "t \<noteq> 0"
    by (simp_all add: t_def)
  have xr: "16 \<le> x" "x < 30" "0 < x" "30 - 1 / 2 ^ 49 < x"
    by (simp_all add: x_def t_def)
  have c: "c_fmod t 30 = t"
    by (simp add: c_fmod_def py_int_def ceiling_eq_iff t_def)
  have d: "degrees t = binary64_round x"
    using t by (simp add: degrees_def py_fmod_def c fadd_def x_def)
  have e: "exponent x = 4"
    using xr by (intro exponent_eq) simp_all
  have u: "ulp x = 1 / 2 ^ 48"
    by (simp add: ulp_def e powr_neg_numeral)
  have "of_int (30 * 2 ^ 48) - 1 / 2 < x / ulp x"
    using xr(4) by (simp add: u field_simps)
  then have "30 * 2 ^ 48 \<le> round_half_even (x / ulp x)"
    by (rule rhe_ge_half)
  then have "of_int (30 * 2 ^ 48) \<le> (of_int (round_half_even (x / ulp x)) :: real)"
    by (simp only: of_int_le_iff)
  then have "ulp x * of_int (30 * 2 ^ 48) \<le> ulp x * of_int (round_half_even (x / ulp x))"
    by (simp only: mult_le_cancel_left_pos ulp_pos)
  then have "30 \<le> binary64_round x"
    using xr(3) by (simp add: binary64_round_def u)
  moreover have "binary64_round x \<le> 30"
    using round_within_30 [of x] xr by simp
  ultimately have "degrees t = 30" using d by simp
  then show ?thesis unfolding t_def .
qed

lemma sign_idx_1e18: "sign_idx (10 ^ 18) = 8"
proof -
  have "binary64_round (10 ^ 18 / 30) = 33333333333333332"
    by (subst binary64_round_eval [where e = 54])
       (simp_all add: round_half_even_def floor_eq_iff powr_neg_numeral)
  then show ?thesis by (simp add: sign_idx_def fdiv_def py_int_def)
qed

lemma is_binary64_1e18: "is_binary64 (10 ^ 18)"
  unfolding is_binary64_def
  by (subst binary64_round_eval [where e = 59]) (simp_all add: round_half_even_def powr_neg_numeral)

lemma is_binary64_45: "is_binary64 45"
  by (simp add: is_binary64_def round_45)

lemma round_0 [simp]: "binary64_round 0 = 0"
  by (simp add: binary64_round_def)

lemma is_binary64_tiny_negative: "is_binary64 (- 1 / 2 ^ 70)"
  unfolding is_binary64_def
  by (subst binary64_round_eval [where e = "- 70"])
     (simp_all add: round_half_even_def powr_neg_numeral)

lemma signs_index_ok: "0 \<le> i \<Longrightarrow> i < 12 \<Longrightarrow> py_index signs i = Inr (signs ! nat i)"
  by (simp add: py_index_def signs_def)

lemma SIGNS_index_ok: "0 \<le> i \<Longrightarrow> i < 12 \<Longrightarrow> py_index SIGNS i = Inr (SIGNS ! nat i)"
  by (simp add: py_index_def SIGNS_def)

lemma format_zodiac_total:
  "format_zodiac (Finite L) = Inr (degrees L, signs ! nat (sign_idx L))"
proof -
  have "py_index signs (sign_idx L) = Inr (signs ! nat (sign_idx L))"
    using sign_idx_range [of L] by (simp add: signs_index_ok)
  then show ?thesis by (simp add: format_zodiac.simps)
qed

lemma format_zodiac_ec_total:
  "format_zodiac_ec (Finite L) =
     Inr (py_int (degrees L), fmul (fsub (degrees L) (of_int (py_int (degrees L)))) 60,
          SIGNS ! nat (sign_idx L))"
proof -
  have "py_index SIGNS (sign_idx L) = Inr (SIGNS ! nat (sign_idx L))"
    using sign_idx_range [of L] by (simp add: SIGNS_index_ok)
  then show ?thesis by (simp add: format_zodiac_ec.simps Let_def)
qed

declare format_zodiac.simps(1) [simp del]

declare format_zodiac_ec.simps(1) [simp del]

section \<open>Runs and loops\<close>

lemma bind_run_Inl [simp]: "bind_run (Inl e, tr) f = (Inl e, tr)"
  by (simp add: bind_run_def)

lemma bind_run_Inr [simp]:
  "bind_run (Inr x, tr) f = (case f x of (r, tr') \<Rightarrow> (r, tr @ tr'))"
  by (simp add: bind_run_def)

lemma bind_run_ret [simp]: "bind_run (ret x) f = f x"
  by (simp add: bind_run_def ret_def split: prod.splits)

lemma bind_run_lift_Inr [simp]: "bind_run (lift (Inr x)) f = f x"
  by (simp add: bind_run_def lift_def split: prod.splits)

lemma bind_run_lift_Inl [simp]: "bind_run (lift (Inl e)) f = (Inl e, [])"
  by (simp add: bind_run_def lift_def)

lemma fst_ret [simp]: "fst (ret x) = Inr x" and snd_ret [simp]: "snd (ret x) = []"
  by (simp_all add: ret_def)

lemma fst_bind_Inr_iff:
  "fst (bind_run m f) = Inr y \<longleftrightarrow> (\<exists>x. fst m = Inr x \<and> fst (f x) = Inr y)"
  by (cases m; cases "fst m") (auto simp: bind_run_def split: prod.splits)

lemma fst_bind_Inl_iff:
  "fst (bind_run m f) = Inl e \<longleftrightarrow>
     fst m = Inl e \<or> (\<exists>x. fst m = Inr x \<and> fst (f x) = Inl e)"
  by (cases m; cases "fst m") (auto simp: bind_run_def split: prod.splits)


lemma snd_bind_Inr: "fst m = Inr x \<Longrightarrow> snd (bind_run m f) = snd m @ snd (f x)"
  by (cases m) (auto simp: bind_run_def split: prod.splits)

lemma snd_bind_Inl: "fst m = Inl e \<Longrightarrow> snd (bind_run m f) = snd m"
  by (cases m) (auto simp: bind_run_def)

lemma set_snd_bind:
  "set (snd (bind_run m f)) \<subseteq> set (snd m) \<union> (\<Union>x. set (snd (f x)))"
proof (cases "fst m")
  case (Inl e)
  then show ?thesis by (simp add: snd_bind_Inl)
next
  case (Inr x)
  then show ?thesis by (auto simp: snd_bind_Inr)
qed

lemma for_loop_invariant:
  assumes "fst (for_loop xs s body) = Inr s'" and "I s"
    and "\<And>x t t'. x \<in> set xs \<Longrightarrow> I t \<Longrightarrow> fst (body x t) = Inr t' \<Longrightarrow> I t'"
  shows "I s'"
  using assms
proof (induction xs arbitrary: s)
  case Nil
  then show ?case by simp
next
  case (Cons x xs)
  from Cons.prems(1) obtain t where t: "fst (body x s) = Inr t"
    and r: "fst (for_loop xs t body) = Inr s'"
    by (auto simp: fst_bind_Inr_iff)
  have "I t" using Cons.prems(2,3) t by auto
  then show ?case using Cons.IH [OF r] Cons.prems(3) by auto
qed

lemma for_loop_effects:
  assumes "\<And>x t. x \<in> set xs \<Longrightarrow> set (snd (body x t)) \<subseteq> A"
  shows "set (snd (for_loop xs s body)) \<subseteq> A"
  using assms
proof (induction xs arbitrary: s)
  case Nil
  then show ?case by simp
next
  case (Cons x xs)
  have "set (snd (for_loop (x # xs) s body))
          \<subseteq> set (snd (body x s)) \<union> (\<Union>t. set (snd (for_loop xs t body)))"
    using set_snd_bind [of "body x s" "\<lambda>t. for_loop xs t body"] by simp
  moreover have "set (snd (body x s)) \<subseteq> A" using Cons.prems by simp
  moreover have "\<And>t. set (snd (for_loop xs t body)) \<subseteq> A"
    using Cons.IH Cons.prems by simp
  ultimately show ?case by blast
qed

lemma for_loop_success:
  assumes "\<And>x t. x \<in> set xs \<Longrightarrow> \<exists>t'. fst (body x t) = Inr t'"
  shows "\<exists>s'. fst (for_loop xs s body) = Inr s'"
  using assms
proof (induction xs arbitrary: s)
  case Nil
  then show ?case by simp
next
  case (Cons x xs)
  obtain t where t: "fst (body x s) = Inr t" using Cons.prems by fastforce
  obtain s' where "fst (for_loop xs t body) = Inr s'" using Cons.IH Cons.prems by fastforce
  then show ?case using t by (auto simp: fst_bind_Inr_iff)
qed

lemma for_loop_Inr_all:
  assumes "fst (for_loop xs s body) = Inr s'" and "x \<in> set xs"
  shows "\<exists>t t'. fst (body x t) = Inr t'"
  using assms
proof (induction xs arbitrary: s)
  case Nil
  then show ?case by simp
next
  case (Cons y ys)
  from Cons.prems(1) obtain t where t: "fst (body y s) = Inr t"
    and r: "fst (for_loop ys t body) = Inr s'"
    by (auto simp: fst_bind_Inr_iff)
  show ?case
  proof (cases "x = y")
    case True
    then show ?thesis using t by blast
  next
    case False
    then show ?thesis using Cons.IH [OF r] Cons.prems(2) by simp
  qed
qed

section \<open>The shape of a built dataset\<close>

lemma position_items [simp]:
  "py_getitem (position r) ''longitude'' = Inr (PFloat (py_round (lon r) 6))"
  "py_getitem (position r) ''latitude'' = Inr (PFloat (py_round (lat r) 6))"
  "py_getitem (position r) ''distance'' = Inr (PFloat (py_round (dist r) 6))"
  "py_getitem (position r) ''longitude_speed'' = Inr (PFloat (py_round (lon_speed r) 6))"
  "py_getitem (position r) ''latitude_speed'' = Inr (PFloat (py_round (lat_speed r) 6))"
  "py_getitem (position r) ''is_retrograde'' = Inr (PBool (lon_speed r < 0))"
  by (simp_all add: position_def py_getitem_def)

lemma position_floats [simp]:
  "get_float (position r) ''longitude'' = Inr (py_round (lon r) 6)"
  "get_float (position r) ''latitude'' = Inr (py_round (lat r) 6)"
  "get_float (position r) ''distance'' = Inr (py_round (dist r) 6)"
  "get_float (position r) ''longitude_speed'' = Inr (py_round (lon_speed r) 6)"
  by (simp_all add: get_float_def as_float_def)

lemma calculate_position_eq:
  "calculate_position sw b jd =
     (case swe_calc_ut sw jd b CALC_FLAGS of
        Inl err \<Rightarrow> Inl err
      | Inr (result, retflag) \<Rightarrow> Inr (position result),
      [CalcUt jd b CALC_FLAGS])"
  by (simp add: calculate_position_def calc_ut_def ret_def split: sum.splits prod.splits)

lemma planet_body_eq:
  "planet_body sw jd (name, b) (positions, rows) =
     (case swe_calc_ut sw jd b CALC_FLAGS of
        Inl err \<Rightarrow> Inl err
      | Inr (result, retflag) \<Rightarrow>
          Inr (AList.update name (position result) positions, rows @ [table_row name result]),
      [CalcUt jd b CALC_FLAGS])"
  by (simp add: planet_body_def calculate_position_eq format_zodiac_total table_row_def
      truthy_def ret_def split: sum.splits prod.splits)

lemma set_update_subset: "set (AList.update k v al) \<subseteq> insert (k, v) (set al)"
  by (induction al) auto

lemma planets_loop_answers:
  assumes "fst (for_loop ps (positions0, rows0) (planet_body sw jd)) = Inr (positions, rows)"
    and "\<forall>p \<in> set positions0. answers sw jd p" and "set ps \<subseteq> set PLANETS"
  shows "\<forall>p \<in> set positions. answers sw jd p"
proof -
  let ?I = "\<lambda>s :: (string \<times> pyval) list \<times> row list. \<forall>p \<in> set (fst s). answers sw jd p"
  have step: "?I t'" if "x \<in> set ps" "?I t" "fst (planet_body sw jd x t) = Inr t'" for x t t'
  proof -
    obtain name b where x: "x = (name, b)" by (cases x)
    obtain po ro where t: "t = (po, ro)" by (cases t)
    from that(3) obtain result retflag where
      r: "swe_calc_ut sw jd b CALC_FLAGS = Inr (result, retflag)"
      and t': "t' = (AList.update name (position result) po, ro @ [table_row name result])"
      unfolding x t planet_body_eq by (auto split: sum.splits)
    have "answers sw jd (name, position result)"
      using r that(1) assms(3) x by (auto simp: answers_def)
    then show ?thesis
      using that(2) t t' set_update_subset [of name "position result" po] by auto
  qed
  have "?I (positions, rows)"
    by (rule for_loop_invariant [OF assms(1), where I = ?I]) (use assms(2) step in auto)
  then show ?thesis by simp
qed

lemma date_body_Inr:
  assumes "fst (date_body e (jd, date_desc) (dates, tables)) = Inr (dates', tables')"
  shows "\<exists>positions rows.
           fst (for_loop PLANETS ([], []) (planet_body (swe e) jd)) = Inr (positions, rows)
           \<and> dates' = AList.update (float_repr e jd)
                (PDict [(''description'', PStr date_desc), (''jd'', PFloat jd),
                        (''positions'', PDict positions)]) dates
           \<and> tables' = tables @ [(date_desc, rows)]"
  using assms by (auto simp: date_body_def fst_bind_Inr_iff)

lemma dates_loop_entries:
  assumes "fst (for_loop ds (dates0, tables0) (date_body e)) = Inr (dates, tables)"
    and "\<forall>d \<in> set dates0. date_entry e d" and "set ds \<subseteq> set TEST_DATES"
  shows "\<forall>d \<in> set dates. date_entry e d"
proof -
  let ?I = "\<lambda>s :: (string \<times> pyval) list \<times> (string \<times> row list) list.
              \<forall>d \<in> set (fst s). date_entry e d"
  have step: "?I t'" if "x \<in> set ds" "?I t" "fst (date_body e x t) = Inr t'" for x t t'
  proof -
    obtain jd date_desc where x: "x = (jd, date_desc)" by (cases x)
    obtain da ta where t: "t = (da, ta)" by (cases t)
    obtain da' ta' where t': "t' = (da', ta')" by (cases t')
    from date_body_Inr [OF that(3) [unfolded x t t']] obtain positions rows where
      l: "fst (for_loop PLANETS ([], []) (planet_body (swe e) jd)) = Inr (positions, rows)"
      and d: "da' = AList.update (float_repr e jd)
                (PDict [(''description'', PStr date_desc), (''jd'', PFloat jd),
                        (''positions'', PDict positions)]) da"
      by blast
    have "\<forall>p \<in> set positions. answers (swe e) jd p"
      using planets_loop_answers [OF l] by simp
    then have "date_entry e (float_repr e jd,
                 PDict [(''description'', PStr date_desc), (''jd'', PFloat jd),
                        (''positions'', PDict positions)])"
      using that(1) assms(3) x by (auto simp: date_entry_def)
    then show ?thesis
      using that(2) t t' d
        set_update_subset [of "float_repr e jd" _ da] by auto
  qed
  have "?I (dates, tables)"
    by (rule for_loop_invariant [OF assms(1), where I = ?I]) (use assms(2) step in auto)
  then show ?thesis by simp
qed

lemma build_Inr:
  assumes "fst (build e) = Inr (data, tables)"
  shows "\<exists>dates. fst (for_loop TEST_DATES ([], []) (date_body e)) = Inr (dates, tables)
           \<and> data = all_data e dates \<and> (\<forall>d \<in> set dates. date_entry e d)"
proof -
  from assms obtain dates where
    l: "fst (for_loop TEST_DATES ([], []) (date_body e)) = Inr (dates, tables)"
    and d: "data = all_data e dates"
    by (auto simp: build_def fst_bind_Inr_iff)
  show ?thesis using l d dates_loop_entries [OF l] by auto
qed

lemma dataset_records_all_data:
  "dataset_records (all_data e dates) =
     [(key, name, pos). (key, dd) \<leftarrow> dates, (k1, ps) \<leftarrow> dict_items dd, k1 = ''positions'',
        (name, pos) \<leftarrow> dict_items ps]"
  by (simp add: dataset_records_def all_data_def)

lemma build_records:
  assumes "fst (build e) = Inr (data, tables)"
    and "(key, name, pos) \<in> set (dataset_records data)"
  shows "\<exists>jd date_desc b result retflag.
           (jd, date_desc) \<in> set TEST_DATES \<and> key = float_repr e jd
           \<and> (name, b) \<in> set PLANETS
           \<and> swe_calc_ut (swe e) jd b CALC_FLAGS = Inr (result, retflag)
           \<and> pos = position result"
proof -
  from build_Inr [OF assms(1)] obtain dates where
    d: "data = all_data e dates" and en: "\<forall>d \<in> set dates. date_entry e d" by blast
  from assms(2) obtain dd ps where
    1: "(key, dd) \<in> set dates" and 2: "(''positions'', ps) \<in> set (dict_items dd)"
    and 3: "(name, pos) \<in> set (dict_items ps)"
    unfolding d dataset_records_all_data by auto
  from en 1 have "date_entry e (key, dd)" by blast
  then obtain jd date_desc positions where
    j: "(jd, date_desc) \<in> set TEST_DATES" "key = float_repr e jd"
    and dd: "dd = PDict [(''description'', PStr date_desc), (''jd'', PFloat jd),
                    (''positions'', PDict positions)]"
    and a: "\<forall>p \<in> set positions. answers (swe e) jd p"
    by (auto simp: date_entry_def)
  from 2 dd have "ps = PDict positions" by auto
  with 3 a have "answers (swe e) jd (name, pos)" by auto
  then show ?thesis using j by (auto simp: answers_def)
qed

section \<open>The sample environment, rounding\<close>

lemma demo_calc_ut [simp]:
  "swe_calc_ut demo_swe jd b fl = Inr (demo_answer b, 256)"
  by (simp add: demo_swe_def)

lemma demo_planets_loop:
  "for_loop PLANETS ([], []) (planet_body demo_swe jd) =
     (Inr (demo_positions, demo_rows), map (\<lambda>(name, b). CalcUt jd b CALC_FLAGS) PLANETS)"
  by (simp add: PLANETS_def planet_body_eq demo_positions_def demo_rows_def ret_def)

lemma demo_dates_loop:
  "for_loop TEST_DATES ([], []) (date_body demo_env) =
     (Inr (demo_dates, demo_tables),
      concat (map (\<lambda>(jd, date_desc). map (\<lambda>(name, b). CalcUt jd b CALC_FLAGS) PLANETS)
        TEST_DATES))"
  by (simp add: TEST_DATES_def date_body_def demo_env_def demo_planets_loop demo_repr_def
      demo_dates_def demo_tables_def ret_def)

lemma demo_build:
  "build demo_env =
     (Inr (all_data demo_env demo_dates, demo_tables),
      concat (map (\<lambda>(jd, date_desc). map (\<lambda>(name, b). CalcUt jd b CALC_FLAGS) PLANETS)
        TEST_DATES))"
  by (simp add: build_def demo_dates_loop ret_def)

lemma round_half_even_close: "\<bar>of_int (round_half_even y) - y\<bar> \<le> 1 / 2"
proof -
  have "of_int \<lfloor>y\<rfloor> \<le> y" "y < of_int \<lfloor>y\<rfloor> + 1" by linarith+
  then show ?thesis
    by (auto simp: round_half_even_def Let_def)
qed

lemma py_round_grid: "py_round x 6 * 10 ^ 6 = of_int (round_half_even (x * 10 ^ 6))"
  by (simp add: py_round_def)

lemma py_round_close: "\<bar>py_round x 6 - x\<bar> \<le> 5 / 10 ^ 7"
proof -
  have "\<bar>of_int (round_half_even (x * 10 ^ 6)) - x * 10 ^ 6\<bar> \<le> 1 / 2"
    by (rule round_half_even_close)
  then have "\<bar>py_round x 6 * 10 ^ 6 - x * 10 ^ 6\<bar> \<le> 1 / 2"
    by (simp only: py_round_grid)
  moreover have "py_round x 6 * 10 ^ 6 - x * 10 ^ 6 = (py_round x 6 - x) * 10 ^ 6"
    by (simp only: left_diff_distrib)
  ultimately have "\<bar>(py_round x 6 - x) * 10 ^ 6\<bar> \<le> 1 / 2"
    by (simp only:)
  then have "\<bar>py_round x 6 - x\<bar> * 10 ^ 6 \<le> 1 / 2"
    by (simp only: abs_mult) simp
  then show ?thesis by simp
qed

lemma py_round_small_negative:
  assumes "- 5 / 10 ^ 7 \<le> s" and "s < 0"
  shows "py_round s 6 = 0"
proof -
  have lo: "- 1 / 2 \<le> s * 10 ^ 6" using assms(1) by simp
  have hi: "s * 10 ^ 6 < 0" using assms(2) by (simp add: mult_less_0_iff)
  have f: "\<lfloor>s * 10 ^ 6\<rfloor> = - 1"
    using lo hi by (simp add: floor_eq_iff)
  have "round_half_even (s * 10 ^ 6) = 0"
    using lo hi unfolding round_half_even_def Let_def f by auto
  then show ?thesis by (simp add: py_round_def)
qed

lemma py_round_0: "py_round 0 6 = 0"
  by (simp add: py_round_def round_half_even_def)

section \<open>The effects of the dataset build\<close>

lemma snd_bind_lift:
  "snd (bind_run (lift r) f) = (case r of Inl e \<Rightarrow> [] | Inr x \<Rightarrow> snd (f x))"
  by (cases r) simp_all

lemma key_value_body_pure: "snd (key_value_body j n kvs) = []"
  by (simp add: key_value_body_def snd_bind_lift split: sum.splits)

lemma key_value_loop_pure: "snd (for_loop xs s (key_value_body j)) = []"
proof -
  have "set (snd (for_loop xs s (key_value_body j))) \<subseteq> {}"
    by (rule for_loop_effects) (simp add: key_value_body_pure)
  then show ?thesis by simp
qed

lemma pure_bind: "snd m = [] \<Longrightarrow> (\<And>x. snd (f x) = []) \<Longrightarrow> snd (bind_run m f) = []"
  by (cases "fst m") (simp_all add: snd_bind_Inl snd_bind_Inr)

lemma snd_lift [simp]: "snd (lift r) = []"
  by (simp add: lift_def)

lemma main_tail_pure:
  "snd (bind_run (lift (py_getitem data ''dates'')) (\<lambda>ds.
        bind_run (lift (py_getitem ds ''2451545.0'')) (\<lambda>dd.
        bind_run (lift (py_getitem dd ''positions'')) (\<lambda>j2000_data.
        bind_run (for_loop [''Sun'', ''Moon'', ''Mercury'', ''Venus'', ''Mars'', ''Jupiter''] []
                    (key_value_body j2000_data)) (\<lambda>kvs.
          ret (tables, kvs)))))) = []"
  by (intro pure_bind) (simp_all add: key_value_loop_pure del: for_loop.simps)

lemma snd_main:
  "snd (main e) = snd (build e) @
     (case fst (build e) of
        Inl err \<Rightarrow> []
      | Inr (data, tables) \<Rightarrow>
          [WriteFile ''reference_ephemeris.json'' (json_dumps (float_repr e) 0 data)])"
proof (cases "fst (build e)")
  case (Inl err)
  then show ?thesis by (simp add: main_def snd_bind_Inl)
next
  case (Inr r)
  obtain data tables where r: "r = (data, tables)" by (cases r)
  have w: "fst (write_file p t) = Inr ()" "snd (write_file p t) = [WriteFile p t]"
    for p t by (simp_all add: write_file_def)
  show ?thesis
    unfolding main_def snd_bind_Inr [OF Inr] r prod.case snd_bind_Inr [OF w(1)] w(2)
      main_tail_pure
    by (simp add: Inr r)
qed

lemma fst_main_Inl: "fst (build e) = Inl err \<Longrightarrow> fst (main e) = Inl err"
  by (simp add: main_def fst_bind_Inl_iff)

lemma planet_body_effects:
  "snd (planet_body sw jd nb s) = [CalcUt jd (snd nb) CALC_FLAGS]"
  by (cases nb; cases s) (simp add: planet_body_eq)

lemma date_body_effects:
  "set (snd (date_body e d s)) \<subseteq> {CalcUt (fst d) b CALC_FLAGS | b. b \<in> snd ` set PLANETS}"
proof -
  obtain jd date_desc where d: "d = (jd, date_desc)" by (cases d)
  obtain dates tables where s: "s = (dates, tables)" by (cases s)
  have l: "set (snd (for_loop PLANETS ([], []) (planet_body (swe e) jd)))
             \<subseteq> {CalcUt jd b CALC_FLAGS | b. b \<in> snd ` set PLANETS}"
    by (rule for_loop_effects) (auto simp: planet_body_effects)
  have "set (snd (date_body e d s))
          \<subseteq> set (snd (for_loop PLANETS ([], []) (planet_body (swe e) jd)))"
    unfolding d s date_body_def prod.case
    by (rule order_trans [OF set_snd_bind]) (auto split: prod.splits)
  then show ?thesis using l d by auto
qed

lemma build_effects:
  "set (snd (build e))
     \<subseteq> {CalcUt jd b CALC_FLAGS | jd b. jd \<in> fst ` set TEST_DATES \<and> b \<in> snd ` set PLANETS}"
proof -
  have l: "set (snd (for_loop TEST_DATES ([], []) (date_body e)))
     \<subseteq> {CalcUt jd b CALC_FLAGS | jd b. jd \<in> fst ` set TEST_DATES \<and> b \<in> snd ` set PLANETS}"
  proof (rule for_loop_effects)
    fix x t assume "x \<in> set TEST_DATES"
    then show "set (snd (date_body e x t))
      \<subseteq> {CalcUt jd b CALC_FLAGS | jd b. jd \<in> fst ` set TEST_DATES \<and> b \<in> snd ` set PLANETS}"
      using date_body_effects [of e x t] by blast
  qed
  have "set (snd (build e)) \<subseteq> set (snd (for_loop TEST_DATES ([], []) (date_body e)))"
    unfolding build_def
    by (rule order_trans [OF set_snd_bind]) (auto split: prod.splits)
  then show ?thesis using l by blast
qed

lemma written_append: "written (xs @ ys) = written xs @ written ys"
  by (induction xs rule: written.induct) simp_all

lemma calc_ut_jds_append: "calc_ut_jds (xs @ ys) = calc_ut_jds xs @ calc_ut_jds ys"
  by (induction xs rule: calc_ut_jds.induct) simp_all

lemma set_calc_ut_jds: "set (calc_ut_jds effs) = {jd. \<exists>b fl. CalcUt jd b fl \<in> set effs}"
  by (induction effs rule: calc_ut_jds.induct) auto

lemma written_no_files: "(\<And>p t. WriteFile p t \<notin> set effs) \<Longrightarrow> written effs = []"
  by (induction effs rule: written.induct) auto

lemma written_build: "written (snd (build e)) = []"
  by (rule written_no_files) (use build_effects [of e] in auto)

lemma written_main:
  "written (snd (main e)) =
     (case fst (build e) of
        Inl err \<Rightarrow> []
      | Inr (data, tables) \<Rightarrow>
          [(''reference_ephemeris.json'', json_dumps (float_repr e) 0 data)])"
  by (simp add: snd_main written_append written_build split: sum.splits prod.splits)

section \<open>Success and failure of the dataset build\<close>

lemma for_loop_Inl:
  assumes "fst (for_loop xs s body) = Inl err"
  shows "\<exists>x \<in> set xs. \<exists>t. fst (body x t) = Inl err"
  using assms
proof (induction xs arbitrary: s)
  case Nil
  then show ?case by simp
next
  case (Cons y ys)
  from Cons.prems consider "fst (body y s) = Inl err"
    | t where "fst (body y s) = Inr t" "fst (for_loop ys t body) = Inl err"
    by (auto simp: fst_bind_Inl_iff)
  then show ?case
  proof cases
    case 1
    then show ?thesis by auto
  next
    case 2
    then show ?thesis using Cons.IH by auto
  qed
qed

lemma planet_body_Inr:
  "fst (planet_body sw jd (name, b) t) = Inr t' \<Longrightarrow> \<exists>r. swe_calc_ut sw jd b CALC_FLAGS = Inr r"
  by (cases t) (auto simp: planet_body_eq split: sum.splits)

lemma planet_body_Inl:
  "fst (planet_body sw jd (name, b) t) = Inl err \<Longrightarrow> swe_calc_ut sw jd b CALC_FLAGS = Inl err"
  by (cases t) (auto simp: planet_body_eq split: sum.splits)

lemma planet_body_succeeds:
  "swe_calc_ut sw jd b CALC_FLAGS = Inr r \<Longrightarrow> \<exists>t'. fst (planet_body sw jd (name, b) t) = Inr t'"
  by (cases t; cases r) (auto simp: planet_body_eq)

lemma date_body_Inl:
  assumes "fst (date_body e (jd, date_desc) t) = Inl err"
  shows "fst (for_loop PLANETS ([], []) (planet_body (swe e) jd)) = Inl err"
  using assms by (cases t) (auto simp: date_body_def fst_bind_Inl_iff split: prod.splits)

lemma build_Inr_queries:
  assumes "fst (build e) = Inr r" and "(jd, date_desc) \<in> set TEST_DATES"
    and "(name, b) \<in> set PLANETS"
  shows "\<exists>a. swe_calc_ut (swe e) jd b CALC_FLAGS = Inr a"
proof -
  obtain data tables where r: "r = (data, tables)" by (cases r)
  from build_Inr [OF assms(1) [unfolded r]] obtain dates where
    "fst (for_loop TEST_DATES ([], []) (date_body e)) = Inr (dates, tables)" by blast
  from for_loop_Inr_all [OF this assms(2)] obtain t t' where
    "fst (date_body e (jd, date_desc) t) = Inr t'" by blast
  then obtain positions rows where
    "fst (for_loop PLANETS ([], []) (planet_body (swe e) jd)) = Inr (positions, rows)"
    using date_body_Inr [of e jd date_desc "fst t" "snd t" "fst t'" "snd t'"] by auto
  from for_loop_Inr_all [OF this assms(3)] obtain u u' where
    "fst (planet_body (swe e) jd (name, b) u) = Inr u'" by blast
  then show ?thesis by (rule planet_body_Inr)
qed

lemma build_Inl_query:
  assumes "fst (build e) = Inl err"
  shows "\<exists>(jd, date_desc) \<in> set TEST_DATES. \<exists>(name, b) \<in> set PLANETS.
           swe_calc_ut (swe e) jd b CALC_FLAGS = Inl err"
proof -
  from assms have "fst (for_loop TEST_DATES ([], []) (date_body e)) = Inl err"
    by (auto simp: build_def fst_bind_Inl_iff split: prod.splits)
  from for_loop_Inl [OF this] obtain d t where d: "d \<in> set TEST_DATES"
    and f: "fst (date_body e d t) = Inl err" by blast
  obtain jd date_desc where dd: "d = (jd, date_desc)" by (cases d)
  from date_body_Inl [OF f [unfolded dd]]
  have "fst (for_loop PLANETS ([], []) (planet_body (swe e) jd)) = Inl err" .
  from for_loop_Inl [OF this] obtain p u where p: "p \<in> set PLANETS"
    and g: "fst (planet_body (swe e) jd p u) = Inl err" by blast
  obtain name b where pp: "p = (name, b)" by (cases p)
  from planet_body_Inl [OF g [unfolded pp]]
  have "swe_calc_ut (swe e) jd b CALC_FLAGS = Inl err" .
  then show ?thesis using d dd p pp by blast
qed

lemma build_succeeds:
  assumes "\<forall>(jd, date_desc) \<in> set TEST_DATES. \<forall>(name, b) \<in> set PLANETS.
             \<exists>a. swe_calc_ut (swe e) jd b CALC_FLAGS = Inr a"
  shows "\<exists>data tables. fst (build e) = Inr (data, tables)"
proof -
  have "\<exists>t'. fst (date_body e d t) = Inr t'" if "d \<in> set TEST_DATES" for d t
  proof -
    obtain jd date_desc where dd: "d = (jd, date_desc)" by (cases d)
    have "\<exists>s'. fst (for_loop PLANETS ([], []) (planet_body (swe e) jd)) = Inr s'"
    proof (rule for_loop_success)
      fix x u assume x: "x \<in> set PLANETS"
      obtain name b where xx: "x = (name, b)" by (cases x)
      from assms that dd x xx obtain a where
        "swe_calc_ut (swe e) jd b CALC_FLAGS = Inr a" by blast
      then show "\<exists>t'. fst (planet_body (swe e) jd x u) = Inr t'"
        unfolding xx by (rule planet_body_succeeds)
    qed
    then show ?thesis
      by (cases t) (auto simp: dd date_body_def fst_bind_Inr_iff)
  qed
  then have "\<exists>s'. fst (for_loop TEST_DATES ([], []) (date_body e)) = Inr s'"
    by (intro for_loop_success) blast
  then show ?thesis
    by (auto simp: build_def fst_bind_Inr_iff)
qed

lemma build_now_isoformat:
  "build (e\<lparr>now_isoformat := t\<rparr>) =
     (map_sum id (\<lambda>(data, tables). (with_generated_at t data, tables)) (fst (build e)),
      snd (build e))"
proof -
  have d: "date_body (e\<lparr>now_isoformat := t\<rparr>) = date_body e"
    by (simp add: date_body_def fun_eq_iff)
  have a: "all_data (e\<lparr>now_isoformat := t\<rparr>) dates = with_generated_at t (all_data e dates)"
    for dates by (simp add: all_data_def with_generated_at_def)
  show ?thesis
    unfolding build_def d
    by (cases "for_loop TEST_DATES ([], []) (date_body e)";
        cases "fst (for_loop TEST_DATES ([], []) (date_body e))")
       (auto simp: a ret_def split: prod.splits)
qed

section \<open>The chart script\<close>

lemma format_zodiac_ec_eq: "format_zodiac_ec (Finite L) = Inr (zodiac_ec_of L)"
  by (simp add: format_zodiac_ec_total zodiac_ec_of_def)

lemma effects_bind:
  assumes "set (snd m) \<subseteq> A" and "\<And>x. fst m = Inr x \<Longrightarrow> set (snd (f x)) \<subseteq> A"
  shows "set (snd (bind_run m f)) \<subseteq> A"
proof (cases "fst m")
  case (Inl e)
  then show ?thesis using assms(1) by (simp add: snd_bind_Inl)
next
  case (Inr x)
  then show ?thesis using assms by (simp add: snd_bind_Inr)
qed

lemma effects_case_prod:
  assumes "\<And>a b. x = (a, b) \<Longrightarrow> set (snd (f a b)) \<subseteq> A"
  shows "set (snd (case x of (a, b) \<Rightarrow> f a b)) \<subseteq> A"
  using assms by (cases x) simp

lemma angle_eq:
  "angle xs i = (case py_index xs i of Inl err \<Rightarrow> Inl err | Inr a \<Rightarrow> Inr (a, zodiac_ec_of a), [])"
  by (simp add: angle_def format_zodiac_ec_eq lift_def ret_def split: sum.splits)

lemma house_body_eq:
  "house_body cusps i acc =
     (case py_index cusps i of
        Inl err \<Rightarrow> Inl err
      | Inr c \<Rightarrow> Inr (acc @ [(i, c, zodiac_ec_of c)]), [])"
  by (simp add: house_body_def angle_eq ret_def split: sum.splits)

lemma planet_line_body_eq:
  "planet_line_body sw jd (name, b) acc =
     (case swe_calc_ut sw jd b CALC_FLAGS of
        Inl err \<Rightarrow> Inl err
      | Inr (result, retflag) \<Rightarrow> Inr (acc @ [planet_line_of name result]),
      [CalcUt jd b CALC_FLAGS])"
  by (simp add: planet_line_body_def calc_ut_def format_zodiac_ec_eq planet_line_of_def
      Let_def ret_def split: sum.splits prod.splits)

lemma point_body_eq:
  "point_body sw jd b acc =
     (case swe_calc_ut sw jd b CALC_FLAGS of
        Inl err \<Rightarrow> Inl err
      | Inr (result, retflag) \<Rightarrow> Inr (acc @ [(lon result, zodiac_ec_of (lon result))]),
      [CalcUt jd b CALC_FLAGS])"
  by (simp add: point_body_def calc_ut_def format_zodiac_ec_eq ret_def
      split: sum.splits prod.splits)

lemma SIGNS_of_longitude:
  "py_index SIGNS (py_int (fdiv L 30) mod 12) = Inr (SIGNS ! nat (sign_idx L))"
  using sign_idx_range [of L] by (simp add: SIGNS_index_ok flip: sign_idx_def)

lemma summary_angle_eq:
  "summary_angle ascmc i acc =
     (case py_index ascmc i of
        Inl err \<Rightarrow> Inl err
      | Inr a \<Rightarrow> Inr (acc @ [(a, SIGNS ! nat (sign_idx a), degrees a)]), [])"
  by (simp add: summary_angle_def SIGNS_of_longitude lift_def ret_def degrees_def
      split: sum.splits)

lemma summary_body_effects:
  "set (snd (summary_body sw jd b acc)) \<subseteq> {CalcUt jd b CALC_FLAGS}"
  unfolding summary_body_def
  by (intro effects_bind effects_case_prod) (simp_all add: calc_ut_def)

lemma chart_effects: "set (snd (chart sw bd)) \<subseteq> {ef. chart_effect sw bd ef}"
  unfolding chart_def Let_def
proof (rule effects_bind)
  show "set (snd (julday sw (YEAR bd) (MONTH bd) (DAY bd) (hour_decimal bd)))
          \<subseteq> {ef. chart_effect sw bd ef}"
    by (simp add: julday_def chart_effect_def)
next
  fix jd assume "fst (julday sw (YEAR bd) (MONTH bd) (DAY bd) (hour_decimal bd)) = Inr jd"
  then have j: "swe_julday sw (YEAR bd) (MONTH bd) (DAY bd) (hour_decimal bd) = Inr jd"
    by (simp add: julday_def)
  have c: "chart_effect sw bd (CalcUt jd b CALC_FLAGS)" for b
    using j by (simp add: chart_effect_def)
  have pl: "set (snd (planet_line_body sw jd p acc)) \<subseteq> {ef. chart_effect sw bd ef}" for p acc
    using c by (cases p) (simp add: planet_line_body_eq)
  have pt: "set (snd (point_body sw jd b acc)) \<subseteq> {ef. chart_effect sw bd ef}" for b acc
    using c by (simp add: point_body_eq)
  have su: "set (snd (summary_body sw jd b acc)) \<subseteq> {ef. chart_effect sw bd ef}" for b acc
    using c summary_body_effects [of sw jd b acc] by auto
  show "set (snd (bind_run (deltat sw jd) (\<lambda>delta_t.
          bind_run (sidtime sw jd) (\<lambda>st.
          bind_run (sidtime sw jd) (\<lambda>gmst.
          bind_run (calc sw jd ECL_NUT) (\<lambda>eps_data.
          bind_run (houses sw jd (LATITUDE bd) (LONGITUDE bd) CHR ''P'') (\<lambda>(cusps, ascmc).
          bind_run (angle ascmc 0) (\<lambda>asc.
          bind_run (angle ascmc 1) (\<lambda>mc.
          bind_run (lift (py_index ascmc 2)) (\<lambda>armc_houses.
          bind_run (angle ascmc 3) (\<lambda>vertex.
          bind_run (for_loop [1 .. min 13 (int (length cusps)) - 1] [] (house_body cusps)) (\<lambda>hs.
          bind_run (for_loop PLANETS [] (planet_line_body sw jd)) (\<lambda>pls.
          bind_run (for_loop [TRUE_NODE, MEAN_NODE, MEAN_APOG] [] (point_body sw jd)) (\<lambda>pts.
          bind_run (for_loop [SUN, MOON, MERCURY] [] (summary_body sw jd)) (\<lambda>s3.
          bind_run (summary_angle ascmc 0 s3) (\<lambda>s4.
          bind_run (summary_angle ascmc 1 s4) (\<lambda>s5.
            ret \<lparr>out_jd = jd, out_delta_t_seconds = delta_t * 86400,
                 out_jd_tt = jd + delta_t,
                 out_gmst = gmst, out_armc = st * 15,
                 out_lst = local_sidereal_time (st * 15) (LONGITUDE bd),
                 out_obliquity = lon (fst eps_data),
                 out_asc = asc, out_mc = mc, out_armc_houses = armc_houses,
                 out_vertex = vertex,
                 out_houses = hs, out_planets = pls, out_points = pts,
                 out_summary = s5\<rparr>)))))))))))))))))
        \<subseteq> {ef. chart_effect sw bd ef}"
    by (intro effects_bind effects_case_prod for_loop_effects pl pt su)
       (simp_all add: deltat_def sidtime_def calc_def houses_def angle_eq house_body_eq
         summary_angle_eq chart_effect_def j del: for_loop.simps)
qed

lemma chart_Inr:
  assumes "fst (chart sw bd) = Inr out"
  shows "\<exists>jd delta_t st.
           swe_julday sw (YEAR bd) (MONTH bd) (DAY bd) (hour_decimal bd) = Inr jd
           \<and> swe_deltat sw jd = Inr delta_t
           \<and> swe_sidtime sw jd = Inr st
           \<and> out_jd out = jd
           \<and> out_delta_t_seconds out = delta_t * 86400
           \<and> out_jd_tt out = jd + delta_t
           \<and> out_gmst out = st
           \<and> out_armc out = st * 15
           \<and> out_lst out = local_sidereal_time (st * 15) (LONGITUDE bd)
           \<and> fst (for_loop PLANETS [] (planet_line_body sw jd)) = Inr (out_planets out)"
  using assms unfolding chart_def Let_def
  by (auto simp: fst_bind_Inr_iff julday_def deltat_def sidtime_def simp del: for_loop.simps
      split: prod.splits)

lemma planet_lines:
  assumes "fst (for_loop ps acc0 (planet_line_body sw jd)) = Inr pls"
    and "pl \<in> set pls" and "acc0 = []"
  shows "\<exists>name b result retflag. (name, b) \<in> set ps
           \<and> swe_calc_ut sw jd b CALC_FLAGS = Inr (result, retflag)
           \<and> pl = planet_line_of name result"
proof -
  let ?G = "\<lambda>pl. \<exists>name b result retflag. (name, b) \<in> set ps
           \<and> swe_calc_ut sw jd b CALC_FLAGS = Inr (result, retflag)
           \<and> pl = planet_line_of name result"
  let ?I = "\<lambda>acc. \<forall>pl \<in> set acc. ?G pl"
  have step: "?I t'" if "x \<in> set ps" "?I t" "fst (planet_line_body sw jd x t) = Inr t'"
    for x t t'
  proof -
    obtain name b where x: "x = (name, b)" by (cases x)
    from that(3) obtain result retflag where
      r: "swe_calc_ut sw jd b CALC_FLAGS = Inr (result, retflag)"
      and t': "t' = t @ [planet_line_of name result]"
      unfolding x planet_line_body_eq by (auto split: sum.splits)
    have "?G (planet_line_of name result)" using r that(1) x by blast
    then show ?thesis using that(2) t' by auto
  qed
  have "?I pls"
    by (rule for_loop_invariant [OF assms(1), where I = ?I]) (use assms(3) step in auto)
  then show ?thesis using assms(2) by blast
qed

lemma chart_julday_Inl:
  "swe_julday sw (YEAR bd) (MONTH bd) (DAY bd) (hour_decimal bd) = Inl err \<Longrightarrow>
     chart sw bd = (Inl err, [Julday (YEAR bd) (MONTH bd) (DAY bd) (hour_decimal bd)])"
  by (simp add: chart_def julday_def)

lemma take_bind:
  "fst m = Inr x \<Longrightarrow> take (length (snd m) + n) (snd (bind_run m f)) = snd m @ take n (snd (f x))"
  by (simp add: snd_bind_Inr)

lemma chart_julday_Inr:
  assumes "swe_julday sw (YEAR bd) (MONTH bd) (DAY bd) (hour_decimal bd) = Inr jd"
  shows "take 2 (snd (chart sw bd))
           = [Julday (YEAR bd) (MONTH bd) (DAY bd) (hour_decimal bd), Deltat jd]"
proof -
  have 1: "fst (julday sw (YEAR bd) (MONTH bd) (DAY bd) (hour_decimal bd)) = Inr jd"
    using assms by (simp add: julday_def)
  have 2: "take 1 (snd (bind_run (deltat sw jd) f)) = [Deltat jd]" for f :: "real \<Rightarrow> 'a run"
    by (cases "swe_deltat sw jd") (simp_all add: deltat_def split: prod.splits)
  have "\<exists>f :: real \<Rightarrow> chart_output run. snd (chart sw bd) =
          Julday (YEAR bd) (MONTH bd) (DAY bd) (hour_decimal bd) # snd (bind_run (deltat sw jd) f)"
    unfolding chart_def Let_def snd_bind_Inr [OF 1]
    by (simp add: julday_def del: for_loop.simps) blast
  then obtain f :: "real \<Rightarrow> chart_output run" where "snd (chart sw bd) =
          Julday (YEAR bd) (MONTH bd) (DAY bd) (hour_decimal bd) # snd (bind_run (deltat sw jd) f)"
    by blast
  then show ?thesis using 2 [of f] by (simp add: numeral_2_eq_2)
qed

section \<open>The sample run of the chart script\<close>

lemma demo_summary_body:
  "summary_body demo_swe jd b acc =
     (Inr (acc @ [(lon (demo_answer b), SIGNS ! nat (sign_idx (lon (demo_answer b))),
                   degrees (lon (demo_answer b)))]),
      [CalcUt jd b FLG_SPEED, CalcUt jd b FLG_SPEED, CalcUt jd b FLG_SPEED])"
  by (simp add: summary_body_def calc_ut_def SIGNS_of_longitude ret_def degrees_def
      CALC_FLAGS_def)

lemma demo_chart_run: "chart demo_swe bd = (Inr (demo_chart bd), demo_chart_effects bd)"
proof -
  have s: "swe_julday demo_swe y m d h = Inr (of_int (365 * y + 31 * m + d) + h / 24)"
    "swe_deltat demo_swe jd = Inr (1 / 8640)"
    "swe_sidtime demo_swe jd = Inr 1.5"
    "swe_calc demo_swe jd b = Inr (demo_xx, 0)"
    "swe_houses demo_swe jd la lo hsys =
       Inr ([0, 15, 45, 75, 105, 135, 165, 195, 225, 255, 285, 315, 345],
            [15, 285, 22.5, 200, 0, 0, 0, 0, 0, 0])"
    for y m d h jd b la lo hsys
    by (simp_all add: demo_swe_def)
  have u: "[1 .. (12 :: int)] = [1, 2, 3, 4, 5, 6, 7, 8, 9, 10, 11, 12]"
    by (simp add: upto_rec1)
  show ?thesis
    by (simp add: chart_def Let_def julday_def deltat_def sidtime_def calc_def houses_def s u
        angle_eq house_body_eq planet_line_body_eq point_body_eq demo_summary_body
        summary_angle_eq py_index_def PLANETS_def lift_def ret_def CALC_FLAGS_def
        demo_chart_def demo_chart_effects_def demo_jd_def demo_xx_def)
qed

section \<open>Claim C1: the zodiac formatting\<close>

text \<open>
  C1 as stated, for every real longitude \<open>L\<close>: \<open>signIndex = floor(L / 30) mod 12\<close>,
  \<open>0 \<le> degreeInSign < 30\<close>, and the function is total. Both scripts compute
  \<open>int(longitude / 30) % 12\<close> and \<open>longitude % 30\<close> on floats. \<open>int\<close> truncates toward
  zero: at \<open>L = -15\<close> the sign index is 0 (Aries, with 15 degrees in the sign), where
  \<open>floor(-15 / 30) mod 12\<close> is 11. The float remainder of a tiny negative longitude is
  rounded up to 30: at \<open>L = -2 ** -70\<close> the degree in the sign is 30. The quotient of a
  large longitude is rounded before \<open>int\<close>: at \<open>L = 1e18\<close> the sign index is 8, where
  \<open>floor(L / 30) mod 12\<close> is 9. NaN raises.
\<close>

theorem format_zodiac_negative_counterexample:
  "format_zodiac (Finite (- 15)) = Inr (15, ''Ari'')
   \<and> format_zodiac_ec (Finite (- 15)) = Inr (15, 0, ''Aries'')
   \<and> sign_idx (- 15) = 0
   \<and> \<lfloor>(- 15 :: real) / 30\<rfloor> mod 12 = (11 :: int)
   \<and> is_binary64 (- 1 / 2 ^ 70)
   \<and> degrees (- 1 / 2 ^ 70) = 30
   \<and> is_binary64 (10 ^ 18)
   \<and> sign_idx (10 ^ 18) = 8
   \<and> \<lfloor>(10 ^ 18 :: real) / 30\<rfloor> mod 12 = (9 :: int)
   \<and> format_zodiac NaN = Inl ValueError"
proof -
  have f: "\<lfloor>(- 15 :: real) / 30\<rfloor> = - 1"
    by (simp add: floor_eq_iff)
  have g: "\<lfloor>(10 ^ 18 :: real) / 30\<rfloor> = 33333333333333333"
    by (simp add: floor_eq_iff)
  have i: "py_int 15 = 15"
    by (simp add: py_int_def)
  have m: "fmul (fsub 15 15) 60 = 0"
    by (simp add: fmul_def fsub_def)
  show ?thesis
    using f g is_binary64_tiny_negative degrees_tiny_negative is_binary64_1e18 sign_idx_1e18
    by (simp add: format_zodiac_total format_zodiac_ec_total sign_idx_minus_15
        degrees_minus_15 i m signs_def SIGNS_def)
qed

text \<open>
  C1, amended: the formatting function is pure, and total over the finite floats; on NaN
  it raises ValueError and on an infinity OverflowError. For every finite longitude
  \<open>L\<close> the sign index lies in 0..11 and the degree in the sign in \<open>[0, 30]\<close>. For every
  \<open>L \<ge> 0\<close> the degree in the sign is exactly \<open>L mod 30\<close>: it is \<open>L - 30 * floor(L / 30)\<close>
  and below 30. For every float \<open>L\<close> with \<open>0 \<le> L < 2 ** 53\<close> (so also above 360) the
  sign index is \<open>floor(L / 30) mod 12\<close>, and for every float \<open>L\<close> in \<open>[0, 360)\<close> the
  reconstruction \<open>signIndex * 30 + degreeInSign\<close> equals \<open>L\<close>. Nothing is said about the
  sign index of a negative longitude, nor of one from \<open>2 ** 53\<close> on.
\<close>

theorem format_zodiac_contract:
  "format_zodiac (Finite L) = Inr (degrees L, signs ! nat (sign_idx L))
   \<and> format_zodiac_ec (Finite L) =
       Inr (py_int (degrees L), fmul (fsub (degrees L) (of_int (py_int (degrees L)))) 60,
            SIGNS ! nat (sign_idx L))
   \<and> format_zodiac NaN = Inl ValueError
   \<and> format_zodiac PosInf = Inl OverflowError
   \<and> format_zodiac NegInf = Inl OverflowError
   \<and> format_zodiac_ec NaN = Inl ValueError
   \<and> format_zodiac_ec PosInf = Inl OverflowError
   \<and> format_zodiac_ec NegInf = Inl OverflowError
   \<and> 0 \<le> sign_idx L \<and> sign_idx L < 12
   \<and> 0 \<le> degrees L \<and> degrees L \<le> 30
   \<and> (0 \<le> L \<longrightarrow> degrees L = L - 30 * of_int \<lfloor>L / 30\<rfloor> \<and> degrees L < 30)
   \<and> (is_binary64 L \<and> 0 \<le> L \<and> L < 2 ^ 53 \<longrightarrow> sign_idx L = \<lfloor>L / 30\<rfloor> mod 12)
   \<and> (is_binary64 L \<and> 0 \<le> L \<and> L < 360
        \<longrightarrow> of_int (sign_idx L) * 30 + degrees L = L)"
  using format_zodiac_total [of L] format_zodiac_ec_total [of L] sign_idx_range [of L]
    degrees_range [of L] degrees_nonneg [of L] degrees_nonneg_range [of L]
    sign_idx_floor [of L] reconstruction [of L]
  by simp

theorem format_zodiac_contract_witness:
  "is_binary64 45 \<and> (0 :: real) \<le> 45 \<and> (45 :: real) < 360 \<and> (45 :: real) < 2 ^ 53
   \<and> sign_idx 45 = 1 \<and> degrees 45 = 15
   \<and> format_zodiac (Finite 45) = Inr (15, ''Tau'')"
proof -
  have f: "\<lfloor>(45 :: real) / 30\<rfloor> = 1"
    by (simp add: floor_eq_iff)
  have s: "sign_idx 45 = 1"
    using format_zodiac_contract [of 45] is_binary64_45 f by simp
  have d: "degrees 45 = 15"
    using format_zodiac_contract [of 45] f by simp
  show ?thesis
    using format_zodiac_contract [of 45] is_binary64_45 s d by (simp add: signs_def)
qed

section \<open>Claim C10: the retrograde flag and the exported speed\<close>

text \<open>
  C10: \<open>calculate_position\<close> takes the flag \<open>is_retrograde\<close> from the unrounded
  longitude speed and exports the speed rounded to 6 decimal places. For every answer of
  the library with a longitude speed \<open>s\<close>, \<open>-5e-7 \<le> s < 0\<close>, the exported record has
  \<open>is_retrograde = True\<close> and \<open>longitude_speed = 0.0\<close>; an answer with speed 0 gives
  the same exported speed and \<open>is_retrograde = False\<close>. So the exported speed does not
  determine the exported flag.
\<close>

theorem retrograde_flag_not_from_exported_speed:
  "(swe_calc_ut sw jd b CALC_FLAGS = Inr (result, retflag)
      \<and> - 5 / 10 ^ 7 \<le> lon_speed result \<and> lon_speed result < 0
    \<longrightarrow> (\<exists>pos. fst (calculate_position sw b jd) = Inr pos
          \<and> py_getitem pos ''is_retrograde'' = Inr (PBool True)
          \<and> py_getitem pos ''longitude_speed'' = Inr (PFloat 0)))
   \<and> (swe_calc_ut sw jd b CALC_FLAGS = Inr (result, retflag) \<and> lon_speed result = 0
    \<longrightarrow> (\<exists>pos. fst (calculate_position sw b jd) = Inr pos
          \<and> py_getitem pos ''is_retrograde'' = Inr (PBool False)
          \<and> py_getitem pos ''longitude_speed'' = Inr (PFloat 0)))"
  by (auto simp: calculate_position_eq py_round_small_negative py_round_0)

theorem retrograde_flag_not_from_exported_speed_witness:
  "swe_calc_ut demo_swe 2451545 MERCURY CALC_FLAGS = Inr (demo_retro_xx, 256)
   \<and> - 5 / 10 ^ 7 \<le> lon_speed demo_retro_xx \<and> lon_speed demo_retro_xx < 0
   \<and> fst (calculate_position demo_swe MERCURY 2451545) = Inr (position demo_retro_xx)
   \<and> py_getitem (position demo_retro_xx) ''is_retrograde'' = Inr (PBool True)
   \<and> py_getitem (position demo_retro_xx) ''longitude_speed'' = Inr (PFloat 0)
   \<and> swe_calc_ut demo_swe 2451545 SATURN CALC_FLAGS = Inr (demo_station_xx, 256)
   \<and> lon_speed demo_station_xx = 0
   \<and> fst (calculate_position demo_swe SATURN 2451545) = Inr (position demo_station_xx)
   \<and> py_getitem (position demo_station_xx) ''is_retrograde'' = Inr (PBool False)
   \<and> py_getitem (position demo_station_xx) ''longitude_speed'' = Inr (PFloat 0)"
proof -
  have m: "swe_calc_ut demo_swe 2451545 MERCURY CALC_FLAGS = Inr (demo_retro_xx, 256)"
    by (simp add: demo_answer_def)
  have s: "swe_calc_ut demo_swe 2451545 SATURN CALC_FLAGS = Inr (demo_station_xx, 256)"
    by (simp add: demo_answer_def)
  have r: "- 5 / 10 ^ 7 \<le> lon_speed demo_retro_xx" "lon_speed demo_retro_xx < 0"
    "lon_speed demo_station_xx = 0"
    by (simp_all add: demo_retro_xx_def demo_station_xx_def)
  have pm: "fst (calculate_position demo_swe MERCURY 2451545) = Inr (position demo_retro_xx)"
    and ps: "fst (calculate_position demo_swe SATURN 2451545) = Inr (position demo_station_xx)"
    by (simp_all add: calculate_position_eq demo_answer_def)
  show ?thesis
    using retrograde_flag_not_from_exported_speed
            [of demo_swe 2451545 MERCURY demo_retro_xx 256]
          retrograde_flag_not_from_exported_speed
            [of demo_swe 2451545 SATURN demo_station_xx 256]
          m s r pm ps
    by simp
qed

section \<open>Claim C8: the fields of a per-body record\<close>

text \<open>
  C8: in the dataset that \<open>main\<close> serialises, each per-body record is the answer of the
  library to the query for that date and body, with exactly the six fields \<open>longitude\<close>,
  \<open>latitude\<close>, \<open>distance\<close>, \<open>longitude_speed\<close>, \<open>latitude_speed\<close> and
  \<open>is_retrograde\<close>, in this order. Each of the five numeric fields is the library's value
  rounded to 6 decimal places: a whole multiple of \<open>10 ** -6\<close>, at most \<open>5e-7\<close> away
  from the value. The file written is the serialisation of this dataset.
\<close>

theorem dataset_record_fields:
  assumes "fst (build e) = Inr (data, tables)"
    and "(key, name, pos) \<in> set (dataset_records data)"
  shows "written (snd (main e)) =
           [(''reference_ephemeris.json'', json_dumps (float_repr e) 0 data)]
         \<and> (\<exists>jd date_desc b result retflag.
               (jd, date_desc) \<in> set TEST_DATES \<and> key = float_repr e jd
               \<and> (name, b) \<in> set PLANETS
               \<and> swe_calc_ut (swe e) jd b CALC_FLAGS = Inr (result, retflag)
               \<and> pos = PDict
                    [(''longitude'', PFloat (py_round (lon result) 6)),
                     (''latitude'', PFloat (py_round (lat result) 6)),
                     (''distance'', PFloat (py_round (dist result) 6)),
                     (''longitude_speed'', PFloat (py_round (lon_speed result) 6)),
                     (''latitude_speed'', PFloat (py_round (lat_speed result) 6)),
                     (''is_retrograde'', PBool (lon_speed result < 0))]
               \<and> (\<forall>x \<in> {lon result, lat result, dist result, lon_speed result,
                          lat_speed result}.
                     (\<exists>n :: int. py_round x 6 * 10 ^ 6 = of_int n)
                     \<and> \<bar>py_round x 6 - x\<bar> \<le> 5 / 10 ^ 7))"
proof -
  have w: "written (snd (main e)) =
             [(''reference_ephemeris.json'', json_dumps (float_repr e) 0 data)]"
    by (simp add: written_main assms(1))
  from build_records [OF assms] obtain jd date_desc b result retflag where
    r: "(jd, date_desc) \<in> set TEST_DATES" "key = float_repr e jd" "(name, b) \<in> set PLANETS"
       "swe_calc_ut (swe e) jd b CALC_FLAGS = Inr (result, retflag)" "pos = position result"
    by blast
  have g: "(\<exists>n :: int. py_round x 6 * 10 ^ 6 = of_int n) \<and> \<bar>py_round x 6 - x\<bar> \<le> 5 / 10 ^ 7"
    for x using py_round_grid [of x] py_round_close [of x] by blast
  show ?thesis
    using w r g unfolding position_def by blast
qed

lemma demo_record:
  "(''2451545.0'', ''Sun'', position demo_xx)
     \<in> set (dataset_records (all_data demo_env demo_dates))"
  by (simp add: dataset_records_all_data demo_dates_def TEST_DATES_def demo_repr_def
      demo_positions_def PLANETS_def demo_answer_def)

theorem dataset_record_fields_witness:
  "fst (build demo_env) = Inr (all_data demo_env demo_dates, demo_tables)
   \<and> (''2451545.0'', ''Sun'', position demo_xx)
        \<in> set (dataset_records (all_data demo_env demo_dates))
   \<and> written (snd (main demo_env)) =
        [(''reference_ephemeris.json'',
          json_dumps demo_repr 0 (all_data demo_env demo_dates))]
   \<and> position demo_xx = PDict
        [(''longitude'', PFloat 280.368918),
         (''latitude'', PFloat 0.000227),
         (''distance'', PFloat 0.983328),
         (''longitude_speed'', PFloat 1.019432),
         (''latitude_speed'', PFloat 0),
         (''is_retrograde'', PBool False)]"
proof -
  have b: "fst (build demo_env) = Inr (all_data demo_env demo_dates, demo_tables)"
    by (simp add: demo_build)
  have p: "position demo_xx = PDict
        [(''longitude'', PFloat 280.368918),
         (''latitude'', PFloat 0.000227),
         (''distance'', PFloat 0.983328),
         (''longitude_speed'', PFloat 1.019432),
         (''latitude_speed'', PFloat 0),
         (''is_retrograde'', PBool False)]"
    by (simp add: position_def demo_xx_def py_round_def round_half_even_def Let_def)
  have "float_repr demo_env = demo_repr" by (simp add: demo_env_def)
  then show ?thesis
    using dataset_record_fields [OF b demo_record] b demo_record p by simp
qed

section \<open>Claim C2: two builds from the same inputs\<close>

lemma demo_env_now:
  "fst (build (demo_env\<lparr>now_isoformat := t\<rparr>)) =
     Inr (all_data (demo_env\<lparr>now_isoformat := t\<rparr>) demo_dates, demo_tables)"
  by (simp add: build_now_isoformat demo_build all_data_def with_generated_at_def)

text \<open>
  C2 as stated: two builds from the same moments, bodies and answers of the library
  write the same bytes. \<open>main\<close> stores \<open>datetime.now().isoformat()\<close> in the field
  \<open>generated_at\<close> of the dataset it serialises: two runs in the same environment, one
  second apart, write different files.
\<close>

theorem build_twice_counterexample:
  "written (snd (main (demo_env\<lparr>now_isoformat := ''2025-01-01T12:00:00''\<rparr>)))
     \<noteq> written (snd (main (demo_env\<lparr>now_isoformat := ''2025-01-01T12:00:01''\<rparr>)))"
proof -
  have w: "written (snd (main (demo_env\<lparr>now_isoformat := t\<rparr>))) =
             [(''reference_ephemeris.json'',
               json_dumps demo_repr 0 (all_data (demo_env\<lparr>now_isoformat := t\<rparr>) demo_dates))]"
    for t
  proof -
    have "float_repr (demo_env\<lparr>now_isoformat := t\<rparr>) = demo_repr"
      by (simp add: demo_env_def)
    then show ?thesis by (simp add: written_main demo_env_now)
  qed
  have "json_dumps demo_repr 0
          (all_data (demo_env\<lparr>now_isoformat := ''2025-01-01T12:00:00''\<rparr>) demo_dates)
        \<noteq> json_dumps demo_repr 0
          (all_data (demo_env\<lparr>now_isoformat := ''2025-01-01T12:00:01''\<rparr>) demo_dates)"
    by (simp add: all_data_def newline_indent_def json_string_def escape_char_def)
  then show ?thesis by (simp add: w)
qed

text \<open>
  C2, amended: two builds from the same moments, bodies and answers of the library make
  the same queries and fail alike; when they succeed, their datasets are equal except
  for the value of the top-level field \<open>generated_at\<close>, which holds the reading of the
  clock at each build, and the file written is the serialisation of that dataset. The
  clock enters the output in no other place.
\<close>

theorem dataset_varies_only_in_generated_at:
  "build (e\<lparr>now_isoformat := t\<rparr>) =
     (map_sum id (\<lambda>(data, tables). (with_generated_at t data, tables)) (fst (build e)),
      snd (build e))
   \<and> written (snd (main (e\<lparr>now_isoformat := t\<rparr>))) =
       (case fst (build e) of
          Inl err \<Rightarrow> []
        | Inr (data, tables) \<Rightarrow>
            [(''reference_ephemeris.json'',
              json_dumps (float_repr e) 0 (with_generated_at t data))])
   \<and> (fst (build e) = Inr (data, tables) \<and> k \<noteq> ''generated_at''
        \<longrightarrow> py_getitem (with_generated_at t data) ''generated_at'' = Inr (PStr t)
            \<and> py_getitem (with_generated_at t data) k = py_getitem data k)"
proof -
  have 2: "written (snd (main (e\<lparr>now_isoformat := t\<rparr>))) =
       (case fst (build e) of
          Inl err \<Rightarrow> []
        | Inr (data, tables) \<Rightarrow>
            [(''reference_ephemeris.json'',
              json_dumps (float_repr e) 0 (with_generated_at t data))])"
    by (simp add: written_main build_now_isoformat split: sum.splits prod.splits)
  have 3: "py_getitem (with_generated_at t data) ''generated_at'' = Inr (PStr t)
            \<and> py_getitem (with_generated_at t data) k = py_getitem data k"
    if "fst (build e) = Inr (data, tables)" "k \<noteq> ''generated_at''"
  proof -
    from build_Inr [OF that(1)] obtain dates where "data = all_data e dates" by blast
    then show ?thesis
      using that(2)
      by (simp add: all_data_def with_generated_at_def py_getitem_def)
  qed
  show ?thesis using build_now_isoformat [where e = e and t = t] 2 3 by blast
qed

theorem dataset_varies_only_in_generated_at_witness:
  "fst (build demo_env) = Inr (all_data demo_env demo_dates, demo_tables)
   \<and> ''dates'' \<noteq> ''generated_at''
   \<and> py_getitem (with_generated_at ''2025-01-01T12:00:01'' (all_data demo_env demo_dates))
        ''generated_at'' = Inr (PStr ''2025-01-01T12:00:01'')
   \<and> py_getitem (with_generated_at ''2025-01-01T12:00:01'' (all_data demo_env demo_dates))
        ''dates'' = Inr (PDict demo_dates)
   \<and> written (snd (main (demo_env\<lparr>now_isoformat := ''2025-01-01T12:00:01''\<rparr>))) =
        [(''reference_ephemeris.json'',
          json_dumps demo_repr 0
            (with_generated_at ''2025-01-01T12:00:01'' (all_data demo_env demo_dates)))]"
proof -
  have b: "fst (build demo_env) = Inr (all_data demo_env demo_dates, demo_tables)"
    by (simp add: demo_build)
  have d: "py_getitem (all_data demo_env demo_dates) ''dates'' = Inr (PDict demo_dates)"
    by (simp add: all_data_def py_getitem_def)
  have r: "float_repr demo_env = demo_repr" by (simp add: demo_env_def)
  show ?thesis
    using dataset_varies_only_in_generated_at
            [where e = demo_env and t = "''2025-01-01T12:00:01''"
               and data = "all_data demo_env demo_dates" and tables = demo_tables
               and k = "''dates''"] b d r
    by simp
qed

section \<open>Claim C3: a failing query\<close>

lemma no_pluto_planets_loop:
  "for_loop PLANETS ([], []) (planet_body no_pluto_swe jd) =
     (Inl (SweError ''no ephemeris for this body''),
      [CalcUt jd SUN FLG_SPEED, CalcUt jd MOON FLG_SPEED, CalcUt jd MERCURY FLG_SPEED,
       CalcUt jd VENUS FLG_SPEED, CalcUt jd MARS FLG_SPEED, CalcUt jd JUPITER FLG_SPEED,
       CalcUt jd SATURN FLG_SPEED, CalcUt jd URANUS FLG_SPEED, CalcUt jd NEPTUNE FLG_SPEED,
       CalcUt jd PLUTO FLG_SPEED])"
  by (simp add: PLANETS_def planet_body_eq no_pluto_swe_def demo_swe_def CALC_FLAGS_def)

text \<open>
  C3 as stated: a failure of the library for one body does not abort the build, the
  other positions are computed and the failure is recorded. \<open>main\<close> has no handler
  around \<open>calculate_position\<close>: with a library that has no ephemeris for Pluto, the run
  ends with the library's exception at the tenth query of the first date, the other five
  dates are never queried, and no file is written.
\<close>

theorem unsupported_body_counterexample:
  "main no_pluto_env =
     (Inl (SweError ''no ephemeris for this body''),
      [CalcUt 2451545 SUN FLG_SPEED, CalcUt 2451545 MOON FLG_SPEED,
       CalcUt 2451545 MERCURY FLG_SPEED, CalcUt 2451545 VENUS FLG_SPEED,
       CalcUt 2451545 MARS FLG_SPEED, CalcUt 2451545 JUPITER FLG_SPEED,
       CalcUt 2451545 SATURN FLG_SPEED, CalcUt 2451545 URANUS FLG_SPEED,
       CalcUt 2451545 NEPTUNE FLG_SPEED, CalcUt 2451545 PLUTO FLG_SPEED])"
  by (simp add: main_def build_def TEST_DATES_def date_body_def no_pluto_env_def demo_env_def
      no_pluto_planets_loop)

text \<open>
  C3, amended: a failure of the library for any one query of the build (any test date,
  any body) ends the whole run with an exception and no file is written; the exception
  is the one some query of the build raised. Positions computed before it are
  discarded and no failure marker is recorded. When every query of the build is
  answered, the build yields a dataset and the file is written.
\<close>

theorem failing_query_aborts_build:
  "((jd, date_desc) \<in> set TEST_DATES \<and> (name, b) \<in> set PLANETS
      \<and> swe_calc_ut (swe e) jd b CALC_FLAGS = Inl err
     \<longrightarrow> written (snd (main e)) = []
         \<and> (\<exists>err'. fst (main e) = Inl err'
              \<and> (\<exists>(jd', date_desc') \<in> set TEST_DATES. \<exists>(name', b') \<in> set PLANETS.
                    swe_calc_ut (swe e) jd' b' CALC_FLAGS = Inl err')))
   \<and> ((\<forall>(jd', date_desc') \<in> set TEST_DATES. \<forall>(name', b') \<in> set PLANETS.
          \<exists>a. swe_calc_ut (swe e) jd' b' CALC_FLAGS = Inr a)
     \<longrightarrow> (\<exists>data tables. fst (build e) = Inr (data, tables)
           \<and> written (snd (main e)) =
               [(''reference_ephemeris.json'', json_dumps (float_repr e) 0 data)]))"
proof (intro conjI impI)
  assume a: "(jd, date_desc) \<in> set TEST_DATES \<and> (name, b) \<in> set PLANETS
      \<and> swe_calc_ut (swe e) jd b CALC_FLAGS = Inl err"
  have "\<exists>err'. fst (build e) = Inl err'"
  proof (cases "fst (build e)")
    case (Inl err')
    then show ?thesis by blast
  next
    case (Inr r)
    from build_Inr_queries [OF Inr] a show ?thesis by fastforce
  qed
  then obtain err' where f: "fst (build e) = Inl err'" by blast
  show "written (snd (main e)) = []"
    by (simp add: written_main f)
  show "\<exists>err'. fst (main e) = Inl err'
              \<and> (\<exists>(jd', date_desc') \<in> set TEST_DATES. \<exists>(name', b') \<in> set PLANETS.
                    swe_calc_ut (swe e) jd' b' CALC_FLAGS = Inl err')"
    using fst_main_Inl [OF f] build_Inl_query [OF f] by blast
next
  assume "\<forall>(jd', date_desc') \<in> set TEST_DATES. \<forall>(name', b') \<in> set PLANETS.
          \<exists>a. swe_calc_ut (swe e) jd' b' CALC_FLAGS = Inr a"
  from build_succeeds [OF this] obtain data tables where
    "fst (build e) = Inr (data, tables)" by blast
  then show "\<exists>data tables. fst (build e) = Inr (data, tables)
           \<and> written (snd (main e)) =
               [(''reference_ephemeris.json'', json_dumps (float_repr e) 0 data)]"
    by (simp add: written_main)
qed

theorem failing_query_aborts_build_witness:
  "(2451545, ''2000-Jan-01 12:00 TT (J2000.0)'') \<in> set TEST_DATES
   \<and> (''Pluto'', PLUTO) \<in> set PLANETS
   \<and> swe_calc_ut (swe no_pluto_env) 2451545 PLUTO CALC_FLAGS
       = Inl (SweError ''no ephemeris for this body'')
   \<and> written (snd (main no_pluto_env)) = []
   \<and> (\<exists>err'. fst (main no_pluto_env) = Inl err')
   \<and> swe_calc_ut (swe demo_env) 2451545 PLUTO CALC_FLAGS = Inr (demo_xx, 256)
   \<and> (\<exists>data tables. fst (build demo_env) = Inr (data, tables)
         \<and> written (snd (main demo_env)) =
             [(''reference_ephemeris.json'', json_dumps (float_repr demo_env) 0 data)])"
proof -
  have 1: "(2451545, ''2000-Jan-01 12:00 TT (J2000.0)'') \<in> set TEST_DATES"
    by (simp add: TEST_DATES_def)
  have 2: "(''Pluto'', PLUTO) \<in> set PLANETS"
    by (simp add: PLANETS_def)
  have 3: "swe_calc_ut (swe no_pluto_env) 2451545 PLUTO CALC_FLAGS
             = Inl (SweError ''no ephemeris for this body'')"
    by (simp add: no_pluto_env_def no_pluto_swe_def demo_env_def)
  have 4: "\<forall>(jd', date_desc') \<in> set TEST_DATES. \<forall>(name', b') \<in> set PLANETS.
          \<exists>a. swe_calc_ut (swe demo_env) jd' b' CALC_FLAGS = Inr a"
    by (simp add: demo_env_def)
  have 5: "swe_calc_ut (swe demo_env) 2451545 PLUTO CALC_FLAGS = Inr (demo_xx, 256)"
    by (simp add: demo_env_def demo_answer_def)
  show ?thesis
    using failing_query_aborts_build
            [where jd = 2451545 and date_desc = "''2000-Jan-01 12:00 TT (J2000.0)''"
               and name = "''Pluto''" and b = PLUTO and e = no_pluto_env
               and err = "SweError ''no ephemeris for this body''"]
          failing_query_aborts_build [where e = demo_env]
          1 2 3 4 5
    by blast
qed

section \<open>Claim C4: the local sidereal time\<close>

text \<open>
  C4 as stated: for every Julian Day and every geographic longitude the local sidereal
  time lies in \<open>[0, 360)\<close>. The script subtracts 360 once when the sum is at least 360
  and does nothing about a negative sum: with a Greenwich sidereal time of 1.5 hours and
  the western longitude \<open>-120\<close> the result is \<open>-97.5\<close>.
\<close>

theorem local_sidereal_time_west_counterexample:
  "fst (chart demo_swe (einstein\<lparr>LONGITUDE := - 120\<rparr>))
     = Inr (demo_chart (einstein\<lparr>LONGITUDE := - 120\<rparr>))
   \<and> out_gmst (demo_chart (einstein\<lparr>LONGITUDE := - 120\<rparr>)) = 1.5
   \<and> out_lst (demo_chart (einstein\<lparr>LONGITUDE := - 120\<rparr>)) = - 97.5
   \<and> out_lst (demo_chart (einstein\<lparr>LONGITUDE := - 120\<rparr>)) < 0"
  by (simp add: demo_chart_run demo_chart_def local_sidereal_time_def)

text \<open>
  C4, amended: the local sidereal time is \<open>GMST * 15 + longitude\<close>, less 360 when that
  sum is at least 360 (one subtraction, no other reduction). Whenever
  \<open>0 \<le> GMST * 15 + longitude < 720\<close>, as for a sidereal time in \<open>[0, 24)\<close> hours and
  an eastern longitude in \<open>[0, 360]\<close> such as the script's own, the result is the sum
  reduced modulo 360 and lies in \<open>[0, 360)\<close>.
\<close>

theorem local_sidereal_time_reduced:
  assumes "fst (chart sw bd) = Inr out"
  shows "\<exists>st. swe_sidtime sw (out_jd out) = Inr st
           \<and> out_lst out =
               (if 360 \<le> st * 15 + LONGITUDE bd then st * 15 + LONGITUDE bd - 360
                else st * 15 + LONGITUDE bd)
           \<and> (0 \<le> st * 15 + LONGITUDE bd \<and> st * 15 + LONGITUDE bd < 720
                \<longrightarrow> out_lst out = py_fmod (st * 15 + LONGITUDE bd) 360
                    \<and> 0 \<le> out_lst out \<and> out_lst out < 360)"
proof -
  from chart_Inr [OF assms] obtain st where
    st: "swe_sidtime sw (out_jd out) = Inr st"
    and l: "out_lst out = local_sidereal_time (st * 15) (LONGITUDE bd)"
    by blast
  define x where "x = st * 15 + LONGITUDE bd"
  have e: "out_lst out = (if 360 \<le> x then x - 360 else x)"
    using l by (simp add: local_sidereal_time_def Let_def x_def)
  have m: "out_lst out = py_fmod x 360 \<and> 0 \<le> out_lst out \<and> out_lst out < 360"
    if "0 \<le> x" "x < 720"
  proof (cases "360 \<le> x")
    case True
    then have "\<lfloor>x / 360\<rfloor> = 1" using that by (simp add: floor_eq_iff)
    then show ?thesis
      using e True that by (simp add: py_fmod_def c_fmod_def py_int_def Let_def)
  next
    case False
    then have "\<lfloor>x / 360\<rfloor> = 0" using that by (simp add: floor_eq_iff)
    then show ?thesis
      using e False that by (simp add: py_fmod_def c_fmod_def py_int_def Let_def)
  qed
  show ?thesis using st e m unfolding x_def by blast
qed

theorem local_sidereal_time_reduced_witness:
  "fst (chart demo_swe (einstein\<lparr>LONGITUDE := 350\<rparr>))
     = Inr (demo_chart (einstein\<lparr>LONGITUDE := 350\<rparr>))
   \<and> swe_sidtime demo_swe (out_jd (demo_chart (einstein\<lparr>LONGITUDE := 350\<rparr>))) = Inr 1.5
   \<and> (0 :: real) \<le> 1.5 * 15 + 350 \<and> (1.5 :: real) * 15 + 350 < 720
   \<and> out_lst (demo_chart (einstein\<lparr>LONGITUDE := 350\<rparr>)) = 12.5
   \<and> py_fmod (1.5 * 15 + 350) 360 = 12.5"
proof -
  have c: "fst (chart demo_swe (einstein\<lparr>LONGITUDE := 350\<rparr>))
     = Inr (demo_chart (einstein\<lparr>LONGITUDE := 350\<rparr>))"
    by (simp add: demo_chart_run)
  have s: "swe_sidtime demo_swe jd = Inr 1.5" for jd
    by (simp add: demo_swe_def)
  have l: "out_lst (demo_chart (einstein\<lparr>LONGITUDE := 350\<rparr>)) = 12.5"
    by (simp add: demo_chart_def local_sidereal_time_def)
  from local_sidereal_time_reduced [OF c] obtain st where
    a: "swe_sidtime demo_swe (out_jd (demo_chart (einstein\<lparr>LONGITUDE := 350\<rparr>))) = Inr st"
    and b: "0 \<le> st * 15 + LONGITUDE (einstein\<lparr>LONGITUDE := 350\<rparr>)
            \<and> st * 15 + LONGITUDE (einstein\<lparr>LONGITUDE := 350\<rparr>) < 720
          \<longrightarrow> out_lst (demo_chart (einstein\<lparr>LONGITUDE := 350\<rparr>))
                = py_fmod (st * 15 + LONGITUDE (einstein\<lparr>LONGITUDE := 350\<rparr>)) 360"
    by blast
  have st: "st = 1.5" using a s by simp
  have f: "py_fmod (1.5 * 15 + 350) 360 = 12.5"
    using b l unfolding st by simp
  show ?thesis
    using c s l f by simp
qed

section \<open>Claim C5: the Julian Day in Terrestrial Time\<close>

text \<open>
  C5: the Julian Day (TT) of a run is the Julian Day (UT) plus Delta T of that day.
  \<open>swe.deltat\<close> gives Delta T in days; the script adds it to the Julian Day (UT), and
  prints it times 86400 as the value in seconds. So the Julian Day (TT) is the Julian
  Day (UT) plus the printed seconds over 86400.
\<close>

theorem julian_day_tt:
  assumes "fst (chart sw bd) = Inr out"
  shows "\<exists>delta_t. swe_deltat sw (out_jd out) = Inr delta_t
           \<and> out_delta_t_seconds out = delta_t * 86400
           \<and> out_jd_tt out = out_jd out + delta_t
           \<and> out_jd_tt out = out_jd out + out_delta_t_seconds out / 86400"
proof -
  from chart_Inr [OF assms] obtain delta_t where
    "swe_deltat sw (out_jd out) = Inr delta_t"
    "out_delta_t_seconds out = delta_t * 86400"
    "out_jd_tt out = out_jd out + delta_t"
    by auto
  then show ?thesis by simp
qed

theorem julian_day_tt_witness:
  "fst (chart demo_swe einstein) = Inr (demo_chart einstein)
   \<and> out_jd (demo_chart einstein) = 98775713 / 144
   \<and> swe_deltat demo_swe (98775713 / 144) = Inr (1 / 8640)
   \<and> out_delta_t_seconds (demo_chart einstein) = 10
   \<and> out_jd_tt (demo_chart einstein) = 98775713 / 144 + 10 / 86400"
proof -
  have c: "fst (chart demo_swe einstein) = Inr (demo_chart einstein)"
    by (simp add: demo_chart_run)
  have j: "out_jd (demo_chart einstein) = 98775713 / 144"
    by (simp add: demo_chart_def demo_jd_def einstein_def hour_decimal_def)
  have d: "swe_deltat demo_swe jd = Inr (1 / 8640)" for jd
    by (simp add: demo_swe_def)
  have s: "out_delta_t_seconds (demo_chart einstein) = 10"
    by (simp add: demo_chart_def)
  from julian_day_tt [OF c] obtain delta_t where
    a: "swe_deltat demo_swe (out_jd (demo_chart einstein)) = Inr delta_t"
    and b: "out_jd_tt (demo_chart einstein) = out_jd (demo_chart einstein) + delta_t"
    by blast
  have "delta_t = 1 / 8640" using a d by simp
  then have t: "out_jd_tt (demo_chart einstein) = 98775713 / 144 + 10 / 86400"
    using b j by simp
  show ?thesis
    using c j d s t by simp
qed

section \<open>Claim C7: the retrograde flag\<close>

lemma demo_mercury_record:
  "(''2451545.0'', ''Mercury'', position demo_retro_xx)
     \<in> set (dataset_records (all_data demo_env demo_dates))"
  by (simp add: dataset_records_all_data demo_dates_def TEST_DATES_def demo_repr_def
      demo_positions_def PLANETS_def demo_answer_def)

text \<open>
  C7: for every position that comes from a query to the library, the retrograde flag is
  true exactly when the longitude speed the library returned is negative. This holds
  for the record that \<open>calculate_position\<close> returns, for every per-body record of the
  dataset that \<open>generate_reference_data.main\<close> builds, and for every planet line of the
  chart script, whose marker is \<open>" R"\<close> exactly when the speed it shows is negative.
  The speed is the one the library returned, before any rounding.
\<close>

theorem retrograde_iff_negative_speed:
  "(swe_calc_ut sw jd b CALC_FLAGS = Inr (result, retflag)
      \<longrightarrow> (\<exists>pos. fst (calculate_position sw b jd) = Inr pos
            \<and> py_getitem pos ''is_retrograde'' = Inr (PBool (lon_speed result < 0))))
   \<and> (fst (build e) = Inr (data, tables) \<and> (key, name, pos') \<in> set (dataset_records data)
      \<longrightarrow> (\<exists>jd' b' result' retflag'.
             swe_calc_ut (swe e) jd' b' CALC_FLAGS = Inr (result', retflag')
             \<and> py_getitem pos' ''is_retrograde'' = Inr (PBool (lon_speed result' < 0))))
   \<and> (fst (chart sw bd) = Inr out \<and> pl \<in> set (out_planets out)
      \<longrightarrow> (\<exists>b' result' retflag'.
             swe_calc_ut sw (out_jd out) b' CALC_FLAGS = Inr (result', retflag')
             \<and> pl_speed pl = lon_speed result'
             \<and> (pl_retro pl = '' R'' \<longleftrightarrow> lon_speed result' < 0)))"
proof (intro conjI impI)
  assume "swe_calc_ut sw jd b CALC_FLAGS = Inr (result, retflag)"
  then show "\<exists>pos. fst (calculate_position sw b jd) = Inr pos
            \<and> py_getitem pos ''is_retrograde'' = Inr (PBool (lon_speed result < 0))"
    by (simp add: calculate_position_eq)
next
  assume "fst (build e) = Inr (data, tables) \<and> (key, name, pos') \<in> set (dataset_records data)"
  then obtain jd' b' result' retflag' where
    "swe_calc_ut (swe e) jd' b' CALC_FLAGS = Inr (result', retflag')" "pos' = position result'"
    using build_records [of e data tables key name pos'] by blast
  then show "\<exists>jd' b' result' retflag'.
             swe_calc_ut (swe e) jd' b' CALC_FLAGS = Inr (result', retflag')
             \<and> py_getitem pos' ''is_retrograde'' = Inr (PBool (lon_speed result' < 0))"
    by (metis position_items(6))
next
  assume a: "fst (chart sw bd) = Inr out \<and> pl \<in> set (out_planets out)"
  from chart_Inr [of sw bd out] a have
    "fst (for_loop PLANETS [] (planet_line_body sw (out_jd out))) = Inr (out_planets out)"
    by auto
  from planet_lines [OF this _ refl, of pl] a obtain name' b' result' retflag' where
    r: "swe_calc_ut sw (out_jd out) b' CALC_FLAGS = Inr (result', retflag')"
    and p: "pl = planet_line_of name' result'"
    by blast
  have "pl_speed pl = lon_speed result'" "pl_retro pl = '' R'' \<longleftrightarrow> lon_speed result' < 0"
    by (simp_all add: p planet_line_of_def)
  then show "\<exists>b' result' retflag'.
             swe_calc_ut sw (out_jd out) b' CALC_FLAGS = Inr (result', retflag')
             \<and> pl_speed pl = lon_speed result'
             \<and> (pl_retro pl = '' R'' \<longleftrightarrow> lon_speed result' < 0)"
    using r by blast
qed

theorem retrograde_iff_negative_speed_witness:
  "swe_calc_ut demo_swe 2451545 MERCURY CALC_FLAGS = Inr (demo_retro_xx, 256)
   \<and> lon_speed demo_retro_xx < 0
   \<and> fst (calculate_position demo_swe MERCURY 2451545) = Inr (position demo_retro_xx)
   \<and> py_getitem (position demo_retro_xx) ''is_retrograde'' = Inr (PBool True)
   \<and> fst (build demo_env) = Inr (all_data demo_env demo_dates, demo_tables)
   \<and> (''2451545.0'', ''Mercury'', position demo_retro_xx)
        \<in> set (dataset_records (all_data demo_env demo_dates))
   \<and> fst (chart demo_swe einstein) = Inr (demo_chart einstein)
   \<and> planet_line_of ''Mercury'' demo_retro_xx \<in> set (out_planets (demo_chart einstein))
   \<and> pl_retro (planet_line_of ''Mercury'' demo_retro_xx) = '' R''
   \<and> planet_line_of ''Sun'' demo_xx \<in> set (out_planets (demo_chart einstein))
   \<and> pl_retro (planet_line_of ''Sun'' demo_xx) = []
   \<and> \<not> lon_speed demo_xx < 0"
proof -
  have m: "swe_calc_ut demo_swe 2451545 MERCURY CALC_FLAGS = Inr (demo_retro_xx, 256)"
    by (simp add: demo_answer_def)
  have s: "lon_speed demo_retro_xx < 0" "\<not> lon_speed demo_xx < 0"
    by (simp_all add: demo_retro_xx_def demo_xx_def)
  have p: "fst (calculate_position demo_swe MERCURY 2451545) = Inr (position demo_retro_xx)"
    by (simp add: calculate_position_eq demo_answer_def)
  have b: "fst (build demo_env) = Inr (all_data demo_env demo_dates, demo_tables)"
    by (simp add: demo_build)
  have c: "fst (chart demo_swe einstein) = Inr (demo_chart einstein)"
    by (simp add: demo_chart_run)
  have l: "planet_line_of ''Mercury'' demo_retro_xx \<in> set (out_planets (demo_chart einstein))"
    "planet_line_of ''Sun'' demo_xx \<in> set (out_planets (demo_chart einstein))"
    by (simp_all add: demo_chart_def PLANETS_def demo_answer_def)
  note t = retrograde_iff_negative_speed
             [where sw = demo_swe and jd = 2451545 and b = MERCURY and result = demo_retro_xx
                and retflag = 256 and e = demo_env and data = "all_data demo_env demo_dates"
                and tables = demo_tables and key = "''2451545.0''" and name = "''Mercury''"
                and pos' = "position demo_retro_xx" and bd = einstein
                and out = "demo_chart einstein"]
  have 1: "py_getitem (position demo_retro_xx) ''is_retrograde'' = Inr (PBool True)"
    using t [where pl = "planet_line_of ''Sun'' demo_xx"] m p s by auto
  have 2: "pl_retro (planet_line_of ''Mercury'' demo_retro_xx) = '' R''"
    using t [where pl = "planet_line_of ''Mercury'' demo_retro_xx"] c l s
    by (auto simp: planet_line_of_def)
  have 3: "pl_retro (planet_line_of ''Sun'' demo_xx) = []"
    using t [where pl = "planet_line_of ''Sun'' demo_xx"] c l s
    by (auto simp: planet_line_of_def)
  show ?thesis
    using m s p b c l demo_mercury_record 1 2 3 by blast
qed

section \<open>Claim C9: calendar fields outside the calendar\<close>

text \<open>
  C9 as stated: a month outside 1..12 or a day outside the month makes the conversion
  fail before any query. The chart script has no check of its own and hands the fields
  to \<open>swe.julday\<close>: with a library whose \<open>julday\<close> computes on any fields, the run for
  month 13, day 32 ends without an exception, after 22 position queries.
\<close>

theorem invalid_calendar_fields_counterexample:
  "chart demo_swe (einstein\<lparr>MONTH := 13, DAY := 32\<rparr>)
     = (Inr (demo_chart (einstein\<lparr>MONTH := 13, DAY := 32\<rparr>)),
        demo_chart_effects (einstein\<lparr>MONTH := 13, DAY := 32\<rparr>))
   \<and> length (calc_ut_jds (demo_chart_effects (einstein\<lparr>MONTH := 13, DAY := 32\<rparr>))) = 22"
  by (simp add: demo_chart_run demo_chart_effects_def)

text \<open>
  C9, amended: the chart script does not validate the calendar fields. Whatever they
  are, the first action of a run is \<open>swe.julday\<close> on the fields as given. When that call
  raises, the run ends with its exception and nothing else is converted or queried;
  when it returns a Julian Day, the run goes on with that value, next to the query for
  Delta T, for fields outside the calendar as for fields inside.
\<close>

theorem calendar_fields_go_to_julday:
  "(swe_julday sw (YEAR bd) (MONTH bd) (DAY bd) (hour_decimal bd) = Inl err
      \<longrightarrow> chart sw bd = (Inl err, [Julday (YEAR bd) (MONTH bd) (DAY bd) (hour_decimal bd)]))
   \<and> (swe_julday sw (YEAR bd) (MONTH bd) (DAY bd) (hour_decimal bd) = Inr jd
      \<longrightarrow> take 2 (snd (chart sw bd))
            = [Julday (YEAR bd) (MONTH bd) (DAY bd) (hour_decimal bd), Deltat jd])"
  using chart_julday_Inl [of sw bd err] chart_julday_Inr [of sw bd jd] by blast

theorem calendar_fields_go_to_julday_witness:
  "swe_julday strict_swe 1879 13 32 (65 / 6) = Inl (SweError ''invalid date'')
   \<and> chart strict_swe (einstein\<lparr>MONTH := 13, DAY := 32\<rparr>)
       = (Inl (SweError ''invalid date''), [Julday 1879 13 32 (65 / 6)])
   \<and> swe_julday demo_swe 1879 13 32 (65 / 6) = Inr (98822945 / 144)
   \<and> take 2 (snd (chart demo_swe (einstein\<lparr>MONTH := 13, DAY := 32\<rparr>)))
       = [Julday 1879 13 32 (65 / 6), Deltat (98822945 / 144)]"
proof -
  have f: "YEAR (einstein\<lparr>MONTH := 13, DAY := 32\<rparr>) = 1879"
    "MONTH (einstein\<lparr>MONTH := 13, DAY := 32\<rparr>) = 13"
    "DAY (einstein\<lparr>MONTH := 13, DAY := 32\<rparr>) = 32"
    "hour_decimal (einstein\<lparr>MONTH := 13, DAY := 32\<rparr>) = 65 / 6"
    by (simp_all add: einstein_def hour_decimal_def)
  have s: "swe_julday strict_swe 1879 13 32 (65 / 6) = Inl (SweError ''invalid date'')"
    by (simp add: strict_swe_def)
  have d: "swe_julday demo_swe 1879 13 32 (65 / 6) = Inr (98822945 / 144)"
    by (simp add: demo_swe_def)
  show ?thesis
    using calendar_fields_go_to_julday
            [where sw = strict_swe and bd = "einstein\<lparr>MONTH := 13, DAY := 32\<rparr>"
               and err = "SweError ''invalid date''"]
          calendar_fields_go_to_julday
            [where sw = demo_swe and bd = "einstein\<lparr>MONTH := 13, DAY := 32\<rparr>"
               and jd = "98822945 / 144"]
          s d
    unfolding f by blast
qed

section \<open>Claim C6: the Julian Day of a position query\<close>

lemma for_loop_schedule:
  assumes "\<And>x t. x \<in> set xs \<Longrightarrow> \<exists>r. g x = snd (body x t) @ r"
    and "\<And>x t t'. x \<in> set xs \<Longrightarrow> fst (body x t) = Inr t' \<Longrightarrow> snd (body x t) = g x"
  shows "(\<exists>r. concat (map g xs) = snd (for_loop xs s body) @ r)
         \<and> (\<forall>s'. fst (for_loop xs s body) = Inr s'
               \<longrightarrow> snd (for_loop xs s body) = concat (map g xs))"
  using assms
proof (induction xs arbitrary: s)
  case Nil
  then show ?case by simp
next
  case (Cons x xs)
  show ?case
  proof (cases "fst (body x s)")
    case (Inl err)
    then have "snd (for_loop (x # xs) s body) = snd (body x s)"
      "fst (for_loop (x # xs) s body) = Inl err"
      by (simp_all add: snd_bind_Inl fst_bind_Inl_iff)
    moreover obtain r where "g x = snd (body x s) @ r"
      using Cons.prems(1) [of x s] by auto
    ultimately show ?thesis by simp
  next
    case (Inr t)
    then have b: "snd (body x s) = g x"
      using Cons.prems(2) [of x s t] by simp
    have e: "snd (for_loop (x # xs) s body) = g x @ snd (for_loop xs t body)"
      using Inr b by (simp add: snd_bind_Inr)
    have f: "fst (for_loop (x # xs) s body) = fst (for_loop xs t body)"
      using Inr by (cases "body x s") (simp add: split: prod.splits)
    have ih: "(\<exists>r. concat (map g xs) = snd (for_loop xs t body) @ r)
         \<and> (\<forall>s'. fst (for_loop xs t body) = Inr s'
               \<longrightarrow> snd (for_loop xs t body) = concat (map g xs))"
      using Cons.IH [of t] Cons.prems by simp
    show ?thesis using e f ih by auto
  qed
qed

lemma planets_loop_schedule:
  "(\<exists>r. map (\<lambda>(planet_name, planet_id). CalcUt jd planet_id CALC_FLAGS) PLANETS
           = snd (for_loop PLANETS s (planet_body sw jd)) @ r)
   \<and> (\<forall>s'. fst (for_loop PLANETS s (planet_body sw jd)) = Inr s'
         \<longrightarrow> snd (for_loop PLANETS s (planet_body sw jd))
             = map (\<lambda>(planet_name, planet_id). CalcUt jd planet_id CALC_FLAGS) PLANETS)"
proof -
  have eq: "concat (map (\<lambda>p. [CalcUt jd (snd p) CALC_FLAGS]) xs)
      = map (\<lambda>(planet_name, planet_id). CalcUt jd planet_id CALC_FLAGS) xs"
    for xs :: "(string \<times> body) list"
    by (induction xs) (auto split: prod.splits)
  have "(\<exists>r. concat (map (\<lambda>p. [CalcUt jd (snd p) CALC_FLAGS]) PLANETS)
           = snd (for_loop PLANETS s (planet_body sw jd)) @ r)
   \<and> (\<forall>s'. fst (for_loop PLANETS s (planet_body sw jd)) = Inr s'
         \<longrightarrow> snd (for_loop PLANETS s (planet_body sw jd))
             = concat (map (\<lambda>p. [CalcUt jd (snd p) CALC_FLAGS]) PLANETS))"
    by (rule for_loop_schedule) (simp_all add: planet_body_effects)
  then show ?thesis unfolding eq .
qed

lemma date_body_schedule:
  "(\<exists>r. map (\<lambda>(planet_name, planet_id). CalcUt (fst d) planet_id CALC_FLAGS) PLANETS
           = snd (date_body e d t) @ r)
   \<and> (\<forall>t'. fst (date_body e d t) = Inr t'
         \<longrightarrow> snd (date_body e d t)
             = map (\<lambda>(planet_name, planet_id). CalcUt (fst d) planet_id CALC_FLAGS) PLANETS)"
proof -
  obtain jd date_desc where d: "d = (jd, date_desc)" by (cases d)
  obtain dates tables where t: "t = (dates, tables)" by (cases t)
  let ?l = "for_loop PLANETS ([], []) (planet_body (swe e) jd)"
  have s: "snd (date_body e d t) = snd ?l"
    unfolding d t date_body_def prod.case
    by (cases "fst ?l") (simp_all add: snd_bind_Inl snd_bind_Inr split: prod.splits)
  have f: "fst (date_body e d t) = Inr t' \<Longrightarrow> \<exists>s'. fst ?l = Inr s'" for t'
    unfolding d t date_body_def prod.case by (auto simp: fst_bind_Inr_iff)
  show ?thesis
    using planets_loop_schedule [of jd "([], [])" "swe e"] s f by (auto simp: d)
qed

lemma build_schedule:
  "(\<exists>r. query_schedule = snd (build e) @ r)
   \<and> (\<forall>r. fst (build e) = Inr r \<longrightarrow> snd (build e) = query_schedule)"
proof -
  let ?g = "\<lambda>d :: real \<times> string.
     map (\<lambda>(planet_name, planet_id). CalcUt (fst d) planet_id CALC_FLAGS) PLANETS"
  let ?l = "for_loop TEST_DATES ([], []) (date_body e)"
  have l: "(\<exists>r. concat (map ?g TEST_DATES) = snd ?l @ r)
      \<and> (\<forall>s'. fst ?l = Inr s' \<longrightarrow> snd ?l = concat (map ?g TEST_DATES))"
    by (rule for_loop_schedule) (use date_body_schedule in blast)+
  have q: "query_schedule = concat (map ?g TEST_DATES)"
    unfolding query_schedule_def
    by (rule arg_cong [where f = concat]) (auto split: prod.splits)
  have s: "snd (build e) = snd ?l"
    unfolding build_def
    by (cases "fst ?l") (simp_all add: snd_bind_Inl snd_bind_Inr split: prod.splits)
  have f: "fst (build e) = Inr r \<Longrightarrow> \<exists>s'. fst ?l = Inr s'" for r
    unfolding build_def by (auto simp: fst_bind_Inr_iff)
  show ?thesis using l q s f by auto
qed

lemma first_effect_bind:
  "\<exists>r. snd m = x # r \<Longrightarrow> \<exists>r. snd (bind_run m f) = x # r"
  by (cases "fst m") (auto simp: snd_bind_Inl snd_bind_Inr)

lemma first_query_build: "\<exists>r. snd (build e) = CalcUt 2451545 SUN FLG_SPEED # r"
proof -
  have 1: "\<exists>r. snd (planet_body (swe e) jd (''Sun'', SUN) s) = CalcUt jd SUN FLG_SPEED # r"
    for jd s by (simp add: planet_body_effects CALC_FLAGS_def)
  have 2: "\<exists>r. snd (for_loop PLANETS s (planet_body (swe e) jd)) = CalcUt jd SUN FLG_SPEED # r"
    for jd s
    unfolding PLANETS_def for_loop.simps by (rule first_effect_bind) (rule 1)
  have 3: "\<exists>r. snd (date_body e (jd, d) s) = CalcUt jd SUN FLG_SPEED # r" for jd d s
    unfolding date_body_def prod.case
    by (cases s) (simp add: first_effect_bind [OF 2] del: for_loop.simps)
  have 4: "\<exists>r. snd (for_loop TEST_DATES s (date_body e)) = CalcUt 2451545 SUN FLG_SPEED # r"
    for s
    unfolding TEST_DATES_def for_loop.simps
    by (rule first_effect_bind) (use 3 [of 2451545] in simp)
  show ?thesis
    unfolding build_def by (rule first_effect_bind) (rule 4)
qed

lemma first_query_main: "take 1 (snd (main e)) = [CalcUt 2451545 SUN FLG_SPEED]"
proof -
  obtain r where "snd (build e) = CalcUt 2451545 SUN FLG_SPEED # r"
    using first_query_build by blast
  then show ?thesis by (simp add: snd_main)
qed

lemma test_dates_described_as_tt:
  "list_all (\<lambda>(jd, date_desc). str_contains ''TT'' date_desc) TEST_DATES"
  by (simp add: TEST_DATES_def)

lemma build_asks_no_delta_t: "Deltat d \<notin> set (snd (build e))"
  using build_effects [of e] by auto

lemma calc_ut_jds_chart:
  assumes "q \<in> set (calc_ut_jds (snd (chart sw bd)))"
  shows "swe_julday sw (YEAR bd) (MONTH bd) (DAY bd) (hour_decimal bd) = Inr q"
proof -
  from assms obtain b fl where "CalcUt q b fl \<in> set (snd (chart sw bd))"
    by (auto simp: set_calc_ut_jds)
  then have "chart_effect sw bd (CalcUt q b fl)"
    using chart_effects [of sw bd] by blast
  then show ?thesis by (simp add: chart_effect_def)
qed

lemma demo_chart_jds:
  "calc_ut_jds (snd (chart demo_swe bd)) = replicate 22 (demo_jd bd)"
  by (simp add: demo_chart_run demo_chart_effects_def numeral_eq_Suc)

lemma demo_build_schedule:
  "fst (build demo_env) = Inr (all_data demo_env demo_dates, demo_tables)"
  by (simp add: demo_build)

text \<open>
  C6: the dataset build does not pass a Julian Day in Universal Time. Every entry of
  \<open>TEST_DATES\<close> describes its Julian Day as a time in TT, and the build sends these
  very values to \<open>swe.calc_ut\<close>, the entry point of the library that reads its argument
  as UT and adds Delta T itself. The queries of a build are, in order, one per planet at
  the Julian Day of each test date in turn (a build that a failing query ends has sent
  the first of them); the build never asks the library for Delta T and
  \<open>calculate_position\<close> passes its argument \<open>jd\<close> on as it is. The first query of a
  run of \<open>main\<close> is \<open>swe.calc_ut(2451545.0, SUN, FLG_SPEED)\<close>, for the date described as
  \<open>2000-Jan-01 12:00 TT (J2000.0)\<close>. The chart script does what the build misses: the
  Julian Day of each of its position queries is the value that \<open>swe.julday\<close> returned for
  the UT calendar fields, never that value plus a nonzero Delta T.
\<close>

theorem dataset_build_queries_tt_values_as_ut:
  "list_all (\<lambda>(jd, date_desc). str_contains ''TT'' date_desc) TEST_DATES
   \<and> (\<exists>rest. query_schedule = snd (build e) @ rest)
   \<and> (fst (build e) = Inr r \<longrightarrow> snd (build e) = query_schedule)
   \<and> Deltat d \<notin> set (snd (build e))
   \<and> snd (calculate_position sw planet_id jd) = [CalcUt jd planet_id CALC_FLAGS]
   \<and> hd TEST_DATES = (2451545, ''2000-Jan-01 12:00 TT (J2000.0)'')
   \<and> take 1 (snd (main e)) = [CalcUt 2451545 SUN FLG_SPEED]
   \<and> (\<forall>q \<in> set (calc_ut_jds (snd (chart sw bd))).
         swe_julday sw (YEAR bd) (MONTH bd) (DAY bd) (hour_decimal bd) = Inr q)
   \<and> (fst (chart sw bd) = Inr out \<and> out_jd_tt out \<noteq> out_jd out
        \<longrightarrow> out_jd_tt out \<notin> set (calc_ut_jds (snd (chart sw bd))))"
proof -
  have 1: "list_all (\<lambda>(jd, date_desc). str_contains ''TT'' date_desc) TEST_DATES"
    by (rule test_dates_described_as_tt)
  have 2: "\<exists>rest. query_schedule = snd (build e) @ rest"
    using build_schedule [of e] by blast
  have 3: "fst (build e) = Inr r \<longrightarrow> snd (build e) = query_schedule"
    using build_schedule [of e] by blast
  have 4: "Deltat d \<notin> set (snd (build e))"
    by (rule build_asks_no_delta_t)
  have 5: "snd (calculate_position sw planet_id jd) = [CalcUt jd planet_id CALC_FLAGS]"
    by (simp add: calculate_position_eq)
  have 6: "hd TEST_DATES = (2451545, ''2000-Jan-01 12:00 TT (J2000.0)'')"
    by (simp add: TEST_DATES_def)
  have 7: "take 1 (snd (main e)) = [CalcUt 2451545 SUN FLG_SPEED]"
    by (rule first_query_main)
  have 8: "\<forall>q \<in> set (calc_ut_jds (snd (chart sw bd))).
         swe_julday sw (YEAR bd) (MONTH bd) (DAY bd) (hour_decimal bd) = Inr q"
    using calc_ut_jds_chart [of _ sw bd] by blast
  have 9: "out_jd_tt out \<notin> set (calc_ut_jds (snd (chart sw bd)))"
    if c: "fst (chart sw bd) = Inr out" and n: "out_jd_tt out \<noteq> out_jd out"
  proof -
    from chart_Inr [OF c] obtain jd where
      j: "swe_julday sw (YEAR bd) (MONTH bd) (DAY bd) (hour_decimal bd) = Inr jd"
      and o: "out_jd out = jd"
      by blast
    show ?thesis
      using calc_ut_jds_chart [of "out_jd_tt out" sw bd] j o n by auto
  qed
  show ?thesis
    using 1 2 3 4 5 6 7 8 9 by blast
qed

theorem dataset_build_queries_tt_values_as_ut_witness:
  "fst (build demo_env) = Inr (all_data demo_env demo_dates, demo_tables)
   \<and> snd (build demo_env) = query_schedule
   \<and> take 1 (snd (main demo_env)) = [CalcUt 2451545 SUN FLG_SPEED]
   \<and> 98775713 / 144 \<in> set (calc_ut_jds (snd (chart demo_swe einstein)))
   \<and> swe_julday demo_swe (YEAR einstein) (MONTH einstein) (DAY einstein)
        (hour_decimal einstein) = Inr (98775713 / 144)
   \<and> fst (chart demo_swe einstein) = Inr (demo_chart einstein)
   \<and> out_jd_tt (demo_chart einstein) \<noteq> out_jd (demo_chart einstein)
   \<and> out_jd_tt (demo_chart einstein) \<notin> set (calc_ut_jds (snd (chart demo_swe einstein)))"
proof -
  have b: "fst (build demo_env) = Inr (all_data demo_env demo_dates, demo_tables)"
    by (rule demo_build_schedule)
  have j: "demo_jd einstein = 98775713 / 144"
    by (simp add: demo_jd_def einstein_def hour_decimal_def)
  have q: "98775713 / 144 \<in> set (calc_ut_jds (snd (chart demo_swe einstein)))"
    by (simp add: demo_chart_jds j)
  have c: "fst (chart demo_swe einstein) = Inr (demo_chart einstein)"
    by (simp add: demo_chart_run)
  have n: "out_jd_tt (demo_chart einstein) \<noteq> out_jd (demo_chart einstein)"
    by (simp add: demo_chart_def)
  note t = dataset_build_queries_tt_values_as_ut
             [where e = demo_env and r = "(all_data demo_env demo_dates, demo_tables)"
                and sw = demo_swe and bd = einstein and out = "demo_chart einstein"]
  have 1: "snd (build demo_env) = query_schedule"
    using t b by blast
  have 2: "take 1 (snd (main demo_env)) = [CalcUt 2451545 SUN FLG_SPEED]"
    using t by blast
  have 3: "swe_julday demo_swe (YEAR einstein) (MONTH einstein) (DAY einstein)
        (hour_decimal einstein) = Inr (98775713 / 144)"
    using t q by blast
  have 4: "out_jd_tt (demo_chart einstein) \<notin> set (calc_ut_jds (snd (chart demo_swe einstein)))"
    using t c n by blast
  show ?thesis using b 1 2 3 4 q c n by blast
qed

end
